theory Spec2Isabelle
  imports Main "HOL-Library.Sublist"
begin

section \<open>The command line interface of pysradb (\<^verbatim>\<open>pysradb/cli.py\<close>)\<close>

text \<open>
  The module is a thin layer: it picks a metadata source, calls one of its methods and
  prints or saves the table that comes back. Everything it calls outside itself (the
  metadata sources, the search backends, pandas, the file system) is a collaborator, so
  the model keeps a trace of the calls made to the collaborators, in order, and takes
  their answers from a \<open>world\<close>. Strings are lists of code points below 256; the
  operating system is POSIX (\<^verbatim>\<open>os.linesep\<close> is a line feed, \<^verbatim>\<open>os.path\<close> is
  \<^verbatim>\<open>posixpath\<close>).
\<close>

subsection \<open>Values, tables, errors\<close>

record table =
  columns :: "string list"
  rows :: "string list list"

text \<open>
  The Python values that are handed through to a collaborator without being inspected.
\<close>

datatype pyval =
    PNone
  | PBool bool
  | PInt int
  | PStr string
  | PList "string list"
  | PTable table
  | PFunc string

datatype error =
    RuntimeError string
  | MissingQueryException string
  | IncorrectFieldException string
  | KeyError string
  | OtherError string

text \<open>\<^verbatim>\<open>str(e)\<close>, as \<^verbatim>\<open>print(e)\<close> shows an exception.\<close>

fun message :: "error \<Rightarrow> string" where
  "message (RuntimeError m) = m"
| "message (MissingQueryException m) = m"
| "message (IncorrectFieldException m) = m"
| "message (KeyError k) = [CHR 0x27] @ k @ [CHR 0x27]"
| "message (OtherError m) = m"

datatype sra_object = SRAweb | SRAdb string

datatype search_instance =
    EnaSearch "pyval list"
  | GeoSearch "pyval list"
  | SraSearch "pyval list"

text \<open>
  One event per call that leaves the module. \<open>Method obj name args kwargs\<close> is the call
  \<^verbatim>\<open>obj.name(*args, **kwargs)\<close> on a metadata source, with the keyword arguments in the
  order they are written; \<open>To_csv df path sep\<close> is
  \<^verbatim>\<open>df.to_csv(path, index=False, header=True, sep=sep)\<close>.
\<close>

datatype event =
    Init sra_object
  | Method sra_object string "pyval list" "(string \<times> pyval) list"
  | Close sra_object
  | Search_init search_instance
  | Search_search search_instance
  | Search_get_df search_instance
  | Read_csv string string
  | To_csv table string string
  | Set_option string pyval
  | Print string
  | Download_sradb_file string bool bool

text \<open>
  The world: what the process can observe, and how the collaborators answer. An answer
  may depend on everything that was done before (the trace so far). \<open>fails\<close> tells
  whether a call that returns nothing raises; \<open>answer\<close> gives the table, or the
  exception, of a call that returns a table.
\<close>

record world =
  getcwd :: string
  isfile :: "string \<Rightarrow> bool"
  stdin :: "string list"
  to_string :: "table \<Rightarrow> string"
  fails :: "event list \<Rightarrow> event \<Rightarrow> error option"
  answer :: "event list \<Rightarrow> event \<Rightarrow> error + table"

subsection \<open>Sequencing: a trace of calls and an exception or a value\<close>

type_synonym 'a prog = "event list \<Rightarrow> (error + 'a) \<times> event list"

definition ret :: "'a \<Rightarrow> 'a prog" where
  "ret x = (\<lambda>tr. (Inr x, tr))"

definition raise :: "error \<Rightarrow> 'a prog" where
  "raise e = (\<lambda>tr. (Inl e, tr))"

definition bnd :: "'a prog \<Rightarrow> ('a \<Rightarrow> 'b prog) \<Rightarrow> 'b prog" where
  "bnd m f = (\<lambda>tr. case m tr of
                      (Inl e, tr') \<Rightarrow> (Inl e, tr')
                    | (Inr x, tr') \<Rightarrow> f x tr')"

text \<open>Output and closing are recorded; their own I/O failures are not part of the model.\<close>

definition emit :: "event \<Rightarrow> unit prog" where
  "emit ev = (\<lambda>tr. (Inr (), tr @ [ev]))"

definition act :: "world \<Rightarrow> event \<Rightarrow> unit prog" where
  "act w ev = (\<lambda>tr. (case fails w tr ev of Some e \<Rightarrow> Inl e | None \<Rightarrow> Inr (), tr @ [ev]))"

definition ask :: "world \<Rightarrow> event \<Rightarrow> table prog" where
  "ask w ev = (\<lambda>tr. (answer w tr ev, tr @ [ev]))"

subsection \<open>The string operations of Python that the module uses\<close>

definition tab :: char where
  "tab = CHR 0x09"

definition newline :: char where
  "newline = CHR 0x0A"

definition linesep :: string where
  "linesep = [newline]"

text \<open>\<^verbatim>\<open>str.isspace\<close> on one character, which is also the class \<^verbatim>\<open>\s\<close> of \<^verbatim>\<open>re\<close>.\<close>

definition isspace :: "char \<Rightarrow> bool" where
  "isspace c = (let n = (of_char c :: nat) in
     (9 \<le> n \<and> n \<le> 13) \<or> (28 \<le> n \<and> n \<le> 32) \<or> n = 133 \<or> n = 160)"

definition lower_char :: "char \<Rightarrow> char" where
  "lower_char c = (let n = (of_char c :: nat) in
     if (65 \<le> n \<and> n \<le> 90) \<or> (192 \<le> n \<and> n \<le> 222 \<and> n \<noteq> 215)
     then char_of (n + 32) else c)"

definition lower :: "string \<Rightarrow> string" where
  "lower s = map lower_char s"

definition endswith :: "string \<Rightarrow> string \<Rightarrow> bool" where
  "endswith s suf = (length suf \<le> length s \<and> drop (length s - length suf) s = suf)"

definition lstrip :: "string \<Rightarrow> string" where
  "lstrip s = dropWhile isspace s"

definition strip :: "string \<Rightarrow> string" where
  "strip s = rev (dropWhile isspace (rev (dropWhile isspace s)))"

text \<open>\<^verbatim>\<open>sep.join(xs)\<close>\<close>

fun join :: "string \<Rightarrow> string list \<Rightarrow> string" where
  "join sep [] = []"
| "join sep [x] = x"
| "join sep (x # y # ys) = x @ sep @ join sep (y # ys)"

text \<open>\<^verbatim>\<open>s.split(c)\<close> for a separator of one character: never an empty list.\<close>

fun split :: "char \<Rightarrow> string \<Rightarrow> string list" where
  "split c [] = [[]]"
| "split c (x # xs) =
     (if x = c then [] # split c xs
      else (case split c xs of [] \<Rightarrow> [[x]] | l # ls \<Rightarrow> (x # l) # ls))"

text \<open>\<^verbatim>\<open>os.path.join(a, b)\<close> of \<^verbatim>\<open>posixpath\<close>.\<close>

definition path_join :: "string \<Rightarrow> string \<Rightarrow> string" where
  "path_join a b =
     (if take 1 b = ''/'' then b
      else if a = [] \<or> endswith a ''/'' then a @ b
      else a @ ''/'' @ b)"

subsection \<open>\<^verbatim>\<open>_print_save_df\<close>\<close>

definition print_save_df :: "world \<Rightarrow> table \<Rightarrow> string option \<Rightarrow> unit prog" where
  "print_save_df w df saveto =
     (if saveto \<noteq> None \<and> saveto \<noteq> Some [] then
        (if endswith (lower (the saveto)) ''.csv''
         then emit (To_csv df (the saveto) '','')
         else emit (To_csv df (the saveto) [tab]))
      else
        (if length (rows df) \<noteq> 0 then
           bnd (emit (Set_option ''display.max_colwidth'' PNone)) (\<lambda>_.
             let to_print = lstrip (to_string w df);
                 to_print_split = split newline to_print;
                 to_print = join [tab] (columns df) # map lstrip to_print_split
             in emit (Print (join linesep to_print)))
         else ret ()))"

subsection \<open>\<^verbatim>\<open>_check_sradb_file\<close> and \<^verbatim>\<open>get_sra_object\<close>\<close>

definition check_sradb_file :: "world \<Rightarrow> string option \<Rightarrow> string prog" where
  "check_sradb_file w db =
     (case db of
        None \<Rightarrow>
          (let db = path_join (getcwd w) ''SRAmetadb.sqlite''
           in if isfile w db then ret db else ret ''web'')
      | Some db \<Rightarrow>
          (if \<not> isfile w db then raise (RuntimeError (db @ '' does not exist''))
           else ret db))"

definition get_sra_object :: "world \<Rightarrow> string \<Rightarrow> sra_object prog" where
  "get_sra_object w db =
     (if db = ''web'' then bnd (act w (Init SRAweb)) (\<lambda>_. ret SRAweb)
      else bnd (act w (Init (SRAdb db))) (\<lambda>_. ret (SRAdb db)))"

subsection \<open>\<^verbatim>\<open>metadb\<close> and \<^verbatim>\<open>metadata\<close>\<close>

definition metadb :: "world \<Rightarrow> string option \<Rightarrow> bool \<Rightarrow> bool \<Rightarrow> unit prog" where
  "metadb w out_dir overwrite keep_gz =
     (let out_dir = (case out_dir of None \<Rightarrow> getcwd w | Some d \<Rightarrow> d)
      in act w (Download_sradb_file out_dir overwrite keep_gz))"

definition metadata ::
  "world \<Rightarrow> pyval \<Rightarrow> string option \<Rightarrow> bool \<Rightarrow> bool \<Rightarrow> bool \<Rightarrow> bool \<Rightarrow> string option
     \<Rightarrow> unit prog" where
  "metadata w srp_id db assay desc detailed expand saveto =
     bnd (check_sradb_file w db) (\<lambda>db.
     bnd (get_sra_object w db) (\<lambda>sradb.
     bnd (ask w (Method sradb ''sra_metadata'' [srp_id]
            [(''assay'', PBool assay),
             (''detailed'', PBool detailed),
             (''sample_attribute'', PBool desc),
             (''expand_sample_attributes'', PBool expand)])) (\<lambda>df.
     bnd (print_save_df w df saveto) (\<lambda>_.
     emit (Close sradb)))))"

subsection \<open>\<^verbatim>\<open>download\<close>\<close>

text \<open>
  The substitutions of \<^verbatim>\<open>re.sub\<close> that rebuild the tabs of a table piped in from
  standard input: three spaces, two spaces, a run of tabs, a space before a tab, a space
  after a tab, and (for the header line) any run of spaces.
\<close>

fun sub_sss :: "string \<Rightarrow> string" where
  "sub_sss (a # b # c # r) =
     (if isspace a \<and> isspace b \<and> isspace c then tab # sub_sss r
      else a # sub_sss (b # c # r))"
| "sub_sss s = s"

fun sub_ss :: "string \<Rightarrow> string" where
  "sub_ss (a # b # r) =
     (if isspace a \<and> isspace b then tab # sub_ss r else a # sub_ss (b # r))"
| "sub_ss s = s"

fun sub_tabs :: "string \<Rightarrow> string" where
  "sub_tabs (a # b # r) =
     (if a = tab \<and> b = tab then sub_tabs (b # r) else a # sub_tabs (b # r))"
| "sub_tabs s = s"

fun sub_st :: "string \<Rightarrow> string" where
  "sub_st (a # b # r) =
     (if isspace a \<and> b = tab then tab # sub_st r else a # sub_st (b # r))"
| "sub_st s = s"

fun sub_ts :: "string \<Rightarrow> string" where
  "sub_ts (a # b # r) =
     (if a = tab \<and> isspace b then tab # sub_ts r else a # sub_ts (b # r))"
| "sub_ts s = s"

fun sub_spaces :: "string \<Rightarrow> string" where
  "sub_spaces (a # b # r) =
     (if isspace a \<and> isspace b then sub_spaces (b # r)
      else (if isspace a then tab else a) # sub_spaces (b # r))"
| "sub_spaces [a] = [if isspace a then tab else a]"
| "sub_spaces [] = []"

definition normalise_line :: "nat \<Rightarrow> string \<Rightarrow> string" where
  "normalise_line index line =
     (let line = strip line;
          line = dropWhile (\<lambda>c. c = CHR '' '') line;
          line = sub_sss line;
          line = sub_ss line;
          line = sub_tabs line;
          line = sub_st line;
          line = sub_ts line;
          line = (if index = 0 then sub_spaces line else line)
      in line @ [newline])"

text \<open>The loop over \<^verbatim>\<open>enumerate(sys.stdin)\<close>, which accumulates \<^verbatim>\<open>text\<close>.\<close>

fun stdin_text :: "nat \<Rightarrow> string list \<Rightarrow> string \<Rightarrow> string" where
  "stdin_text index [] text = text"
| "stdin_text index (line # lines) text =
     stdin_text (Suc index) lines (text @ normalise_line index line)"

text \<open>The loop \<^verbatim>\<open>for srp_x in srp\<close>.\<close>

fun download_each ::
  "world \<Rightarrow> sra_object \<Rightarrow> string \<Rightarrow> pyval \<Rightarrow> bool \<Rightarrow> string list \<Rightarrow> unit prog" where
  "download_each w sradb out_dir srx skip_confirmation [] = ret ()"
| "download_each w sradb out_dir srx skip_confirmation (srp_x # srp) =
     bnd (ask w (Method sradb ''sra_metadata'' [PStr srp_x] [(''detailed'', PBool True)]))
       (\<lambda>metadata.
     bnd (act w (Method sradb ''download'' []
            [(''df'', PTable metadata),
             (''out_dir'', PStr out_dir),
             (''filter_by_srx'', srx),
             (''skip_confirmation'', PBool skip_confirmation)])) (\<lambda>_.
     download_each w sradb out_dir srx skip_confirmation srp))"

text \<open>
  \<^verbatim>\<open>col\<close> and \<^verbatim>\<open>use_wget\<close> have the defaults \<^verbatim>\<open>"sra_url"\<close> and \<^verbatim>\<open>True\<close> in
  the source; a caller that leaves one out passes the default.
\<close>

definition download ::
  "world \<Rightarrow> string option \<Rightarrow> string option \<Rightarrow> pyval \<Rightarrow> string list option \<Rightarrow> bool
     \<Rightarrow> string \<Rightarrow> bool \<Rightarrow> unit prog" where
  "download w out_dir db srx srp skip_confirmation col use_wget =
     (let protocol = (if use_wget then ''ftp'' else ''fasp'') in
      bnd (check_sradb_file w db) (\<lambda>db.
      let out_dir = (case out_dir of
                       None \<Rightarrow> path_join (getcwd w) ''pysradb_downloads''
                     | Some d \<Rightarrow> d) in
      bnd (get_sra_object w db) (\<lambda>sradb.
      bnd (if srp = None \<or> srp = Some [] then
             (let text = stdin_text 0 (stdin w) [] in
              bnd (ask w (Read_csv text [tab])) (\<lambda>df.
              act w (Method sradb ''download'' []
                [(''df'', PTable df),
                 (''out_dir'', PStr out_dir),
                 (''filter_by_srx'', srx),
                 (''skip_confirmation'', PBool True),
                 (''protocol'', PStr protocol),
                 (''url_col'', PStr col)])))
           else download_each w sradb out_dir srx skip_confirmation (the srp)) (\<lambda>_.
      emit (Close sradb)))))"

subsection \<open>\<^verbatim>\<open>search\<close>\<close>

text \<open>\<^verbatim>\<open>fields[k]\<close> for each key in turn: the first missing key raises.\<close>

fun subscripts :: "(string \<rightharpoonup> pyval) \<Rightarrow> string list \<Rightarrow> pyval list prog" where
  "subscripts fields' [] = ret []"
| "subscripts fields' (k # ks) =
     (case fields' k of
        None \<Rightarrow> raise (KeyError k)
      | Some v \<Rightarrow> bnd (subscripts fields' ks) (\<lambda>vs. ret (v # vs)))"

text \<open>The body of the \<^verbatim>\<open>try\<close> block.\<close>

definition search_try ::
  "world \<Rightarrow> string option \<Rightarrow> int \<Rightarrow> int \<Rightarrow> (string \<rightharpoonup> pyval) \<Rightarrow> search_instance prog" where
  "search_try w db verbosity return_max fields' =
     (if db = Some ''ena'' then
        bnd (subscripts fields'
               [''query'', ''accession'', ''organism'', ''layout'', ''mbases'',
                ''publication_date'', ''platform'', ''selection'', ''source'',
                ''strategy'', ''title'']) (\<lambda>args.
        let instance = EnaSearch (PInt verbosity # PInt return_max # args) in
        bnd (act w (Search_init instance)) (\<lambda>_.
        bnd (act w (Search_search instance)) (\<lambda>_.
        ret instance)))
      else if db = Some ''geo'' then
        bnd (subscripts fields'
               [''query'', ''accession'', ''organism'', ''layout'', ''mbases'',
                ''publication_date'', ''platform'', ''selection'', ''source'',
                ''strategy'', ''title'', ''geo_query'', ''geo_dataset_type'',
                ''geo_entry_type'']) (\<lambda>args.
        let instance = GeoSearch (PInt verbosity # PInt return_max # args) in
        bnd (act w (Search_init instance)) (\<lambda>_.
        bnd (act w (Search_search instance)) (\<lambda>_.
        ret instance)))
      else
        bnd (subscripts fields'
               [''query'', ''accession'', ''organism'', ''layout'', ''mbases'',
                ''publication_date'', ''platform'', ''selection'', ''source'',
                ''strategy'', ''title'']) (\<lambda>args.
        let instance = SraSearch (PInt verbosity # PInt return_max # args) in
        bnd (act w (Search_init instance)) (\<lambda>_.
        bnd (act w (Search_search instance)) (\<lambda>_.
        ret instance))))"

text \<open>\<^verbatim>\<open>except (MissingQueryException, IncorrectFieldException)\<close>\<close>

fun caught :: "error \<Rightarrow> bool" where
  "caught (MissingQueryException m) = True"
| "caught (IncorrectFieldException m) = True"
| "caught e = False"

definition search ::
  "world \<Rightarrow> string option \<Rightarrow> string option \<Rightarrow> int \<Rightarrow> int \<Rightarrow> (string \<rightharpoonup> pyval)
     \<Rightarrow> unit prog" where
  "search w saveto db verbosity return_max fields' =
     (\<lambda>tr. case search_try w db verbosity return_max fields' tr of
        (Inl e, tr') \<Rightarrow>
          (if caught e then emit (Print (message e)) tr' else (Inl e, tr'))
      | (Inr instance, tr') \<Rightarrow>
          bnd (ask w (Search_get_df instance)) (\<lambda>df. print_save_df w df saveto) tr')"

subsection \<open>The identifier conversions\<close>

definition gse_to_gsm ::
  "world \<Rightarrow> pyval \<Rightarrow> string option \<Rightarrow> string option \<Rightarrow> bool \<Rightarrow> bool \<Rightarrow> bool \<Rightarrow> unit prog" where
  "gse_to_gsm w gse_ids db saveto detailed desc expand =
     bnd (check_sradb_file w db) (\<lambda>db.
     bnd (get_sra_object w db) (\<lambda>sradb.
     bnd (ask w (Method sradb ''gse_to_gsm'' [gse_ids]
            [(''detailed'', PBool detailed),
             (''sample_attribute'', PBool desc),
             (''expand_sample_attributes'', PBool expand)])) (\<lambda>df.
     bnd (print_save_df w df saveto) (\<lambda>_.
     emit (Close sradb)))))"

definition gse_to_srp ::
  "world \<Rightarrow> pyval \<Rightarrow> string option \<Rightarrow> string option \<Rightarrow> bool \<Rightarrow> bool \<Rightarrow> bool \<Rightarrow> unit prog" where
  "gse_to_srp w gse_ids db saveto detailed desc expand =
     bnd (check_sradb_file w db) (\<lambda>db.
     bnd (get_sra_object w db) (\<lambda>sradb.
     bnd (ask w (Method sradb ''gse_to_srp'' [gse_ids]
            [(''detailed'', PBool detailed),
             (''sample_attribute'', PBool desc),
             (''expand_sample_attributes'', PBool expand)])) (\<lambda>df.
     bnd (print_save_df w df saveto) (\<lambda>_.
     emit (Close sradb)))))"

definition gsm_to_gse ::
  "world \<Rightarrow> pyval \<Rightarrow> string option \<Rightarrow> string option \<Rightarrow> bool \<Rightarrow> bool \<Rightarrow> bool \<Rightarrow> unit prog" where
  "gsm_to_gse w gsm_ids db saveto detailed desc expand =
     bnd (check_sradb_file w db) (\<lambda>db.
     bnd (get_sra_object w db) (\<lambda>sradb.
     bnd (ask w (Method sradb ''gsm_to_gse'' [gsm_ids]
            [(''detailed'', PBool detailed),
             (''sample_attribute'', PBool desc),
             (''expand_sample_attributes'', PBool expand)])) (\<lambda>df.
     bnd (print_save_df w df saveto) (\<lambda>_.
     emit (Close sradb)))))"

definition gsm_to_srp ::
  "world \<Rightarrow> pyval \<Rightarrow> string option \<Rightarrow> string option \<Rightarrow> bool \<Rightarrow> bool \<Rightarrow> bool \<Rightarrow> unit prog" where
  "gsm_to_srp w gsm_ids db saveto detailed desc expand =
     bnd (check_sradb_file w db) (\<lambda>db.
     bnd (get_sra_object w db) (\<lambda>sradb.
     bnd (ask w (Method sradb ''gsm_to_srp'' [gsm_ids]
            [(''detailed'', PBool detailed),
             (''sample_attribute'', PBool desc),
             (''expand_sample_attributes'', PBool expand)])) (\<lambda>df.
     bnd (print_save_df w df saveto) (\<lambda>_.
     emit (Close sradb)))))"

definition gsm_to_srr ::
  "world \<Rightarrow> pyval \<Rightarrow> string option \<Rightarrow> string option \<Rightarrow> bool \<Rightarrow> bool \<Rightarrow> bool \<Rightarrow> unit prog" where
  "gsm_to_srr w gsm_ids db saveto detailed desc expand =
     bnd (check_sradb_file w db) (\<lambda>db.
     bnd (get_sra_object w db) (\<lambda>sradb.
     bnd (ask w (Method sradb ''gsm_to_srr'' [gsm_ids]
            [(''detailed'', PBool detailed),
             (''sample_attribute'', PBool desc),
             (''expand_sample_attributes'', PBool expand)])) (\<lambda>df.
     bnd (print_save_df w df saveto) (\<lambda>_.
     emit (Close sradb)))))"

definition gsm_to_srs ::
  "world \<Rightarrow> pyval \<Rightarrow> string option \<Rightarrow> string option \<Rightarrow> bool \<Rightarrow> bool \<Rightarrow> bool \<Rightarrow> unit prog" where
  "gsm_to_srs w gsm_ids db saveto detailed desc expand =
     bnd (check_sradb_file w db) (\<lambda>db.
     bnd (get_sra_object w db) (\<lambda>sradb.
     bnd (ask w (Method sradb ''gsm_to_srs'' [gsm_ids]
            [(''detailed'', PBool detailed),
             (''sample_attribute'', PBool desc),
             (''expand_sample_attributes'', PBool expand)])) (\<lambda>df.
     bnd (print_save_df w df saveto) (\<lambda>_.
     emit (Close sradb)))))"

definition gsm_to_srx ::
  "world \<Rightarrow> pyval \<Rightarrow> string option \<Rightarrow> string option \<Rightarrow> bool \<Rightarrow> bool \<Rightarrow> bool \<Rightarrow> unit prog" where
  "gsm_to_srx w gsm_ids db saveto detailed desc expand =
     bnd (check_sradb_file w db) (\<lambda>db.
     bnd (get_sra_object w db) (\<lambda>sradb.
     bnd (ask w (Method sradb ''gsm_to_srx'' [gsm_ids]
            [(''detailed'', PBool detailed),
             (''sample_attribute'', PBool desc),
             (''expand_sample_attributes'', PBool expand)])) (\<lambda>df.
     bnd (print_save_df w df saveto) (\<lambda>_.
     emit (Close sradb)))))"

definition srp_to_gse ::
  "world \<Rightarrow> pyval \<Rightarrow> string option \<Rightarrow> string option \<Rightarrow> bool \<Rightarrow> bool \<Rightarrow> bool \<Rightarrow> unit prog" where
  "srp_to_gse w srp_id db saveto detailed desc expand =
     bnd (check_sradb_file w db) (\<lambda>db.
     bnd (get_sra_object w db) (\<lambda>sradb.
     bnd (ask w (Method sradb ''srp_to_gse'' [srp_id]
            [(''detailed'', PBool detailed),
             (''sample_attribute'', PBool desc),
             (''expand_sample_attributes'', PBool expand)])) (\<lambda>df.
     bnd (print_save_df w df saveto) (\<lambda>_.
     emit (Close sradb)))))"

definition srp_to_srr ::
  "world \<Rightarrow> pyval \<Rightarrow> string option \<Rightarrow> string option \<Rightarrow> bool \<Rightarrow> bool \<Rightarrow> bool \<Rightarrow> unit prog" where
  "srp_to_srr w srp_id db saveto detailed desc expand =
     bnd (check_sradb_file w db) (\<lambda>db.
     bnd (get_sra_object w db) (\<lambda>sradb.
     bnd (ask w (Method sradb ''srp_to_srr'' [srp_id]
            [(''detailed'', PBool detailed),
             (''sample_attribute'', PBool desc),
             (''expand_sample_attributes'', PBool expand)])) (\<lambda>df.
     bnd (print_save_df w df saveto) (\<lambda>_.
     emit (Close sradb)))))"

definition srp_to_srs ::
  "world \<Rightarrow> pyval \<Rightarrow> string option \<Rightarrow> string option \<Rightarrow> bool \<Rightarrow> bool \<Rightarrow> bool \<Rightarrow> unit prog" where
  "srp_to_srs w srp_id db saveto detailed desc expand =
     bnd (check_sradb_file w db) (\<lambda>db.
     bnd (get_sra_object w db) (\<lambda>sradb.
     bnd (ask w (Method sradb ''srp_to_srs'' [srp_id]
            [(''detailed'', PBool detailed),
             (''sample_attribute'', PBool desc),
             (''expand_sample_attributes'', PBool expand)])) (\<lambda>df.
     bnd (print_save_df w df saveto) (\<lambda>_.
     emit (Close sradb)))))"

definition srp_to_srx ::
  "world \<Rightarrow> pyval \<Rightarrow> string option \<Rightarrow> string option \<Rightarrow> bool \<Rightarrow> bool \<Rightarrow> bool \<Rightarrow> unit prog" where
  "srp_to_srx w srp_id db saveto detailed desc expand =
     bnd (check_sradb_file w db) (\<lambda>db.
     bnd (get_sra_object w db) (\<lambda>sradb.
     bnd (ask w (Method sradb ''srp_to_srx'' [srp_id]
            [(''detailed'', PBool detailed),
             (''sample_attribute'', PBool desc),
             (''expand_sample_attributes'', PBool expand)])) (\<lambda>df.
     bnd (print_save_df w df saveto) (\<lambda>_.
     emit (Close sradb)))))"

definition srr_to_gsm ::
  "world \<Rightarrow> pyval \<Rightarrow> string option \<Rightarrow> string option \<Rightarrow> bool \<Rightarrow> bool \<Rightarrow> bool \<Rightarrow> unit prog" where
  "srr_to_gsm w srr_ids db saveto detailed desc expand =
     bnd (check_sradb_file w db) (\<lambda>db.
     bnd (get_sra_object w db) (\<lambda>sradb.
     bnd (ask w (Method sradb ''srr_to_gsm'' [srr_ids]
            [(''detailed'', PBool detailed),
             (''sample_attribute'', PBool desc),
             (''expand_sample_attributes'', PBool expand)])) (\<lambda>df.
     bnd (print_save_df w df saveto) (\<lambda>_.
     emit (Close sradb)))))"

definition srr_to_srp ::
  "world \<Rightarrow> pyval \<Rightarrow> string option \<Rightarrow> string option \<Rightarrow> bool \<Rightarrow> bool \<Rightarrow> bool \<Rightarrow> unit prog" where
  "srr_to_srp w srr_ids db saveto detailed desc expand =
     bnd (check_sradb_file w db) (\<lambda>db.
     bnd (get_sra_object w db) (\<lambda>sradb.
     bnd (ask w (Method sradb ''srr_to_srp'' [srr_ids]
            [(''detailed'', PBool detailed),
             (''sample_attribute'', PBool desc),
             (''expand_sample_attributes'', PBool expand)])) (\<lambda>df.
     bnd (print_save_df w df saveto) (\<lambda>_.
     emit (Close sradb)))))"

definition srr_to_srs ::
  "world \<Rightarrow> pyval \<Rightarrow> string option \<Rightarrow> string option \<Rightarrow> bool \<Rightarrow> bool \<Rightarrow> bool \<Rightarrow> unit prog" where
  "srr_to_srs w srr_ids db saveto detailed desc expand =
     bnd (check_sradb_file w db) (\<lambda>db.
     bnd (get_sra_object w db) (\<lambda>sradb.
     bnd (ask w (Method sradb ''srr_to_srs'' [srr_ids]
            [(''detailed'', PBool detailed),
             (''sample_attribute'', PBool desc),
             (''expand_sample_attributes'', PBool expand)])) (\<lambda>df.
     bnd (print_save_df w df saveto) (\<lambda>_.
     emit (Close sradb)))))"

definition srr_to_srx ::
  "world \<Rightarrow> pyval \<Rightarrow> string option \<Rightarrow> string option \<Rightarrow> bool \<Rightarrow> bool \<Rightarrow> bool \<Rightarrow> unit prog" where
  "srr_to_srx w srr_ids db saveto detailed desc expand =
     bnd (check_sradb_file w db) (\<lambda>db.
     bnd (get_sra_object w db) (\<lambda>sradb.
     bnd (ask w (Method sradb ''srr_to_srx'' [srr_ids]
            [(''detailed'', PBool detailed),
             (''sample_attribute'', PBool desc),
             (''expand_sample_attributes'', PBool expand)])) (\<lambda>df.
     bnd (print_save_df w df saveto) (\<lambda>_.
     emit (Close sradb)))))"

definition srs_to_gsm ::
  "world \<Rightarrow> pyval \<Rightarrow> string option \<Rightarrow> string option \<Rightarrow> bool \<Rightarrow> bool \<Rightarrow> bool \<Rightarrow> unit prog" where
  "srs_to_gsm w srs_ids db saveto detailed desc expand =
     bnd (check_sradb_file w db) (\<lambda>db.
     bnd (get_sra_object w db) (\<lambda>sradb.
     bnd (ask w (Method sradb ''srs_to_gsm'' [srs_ids]
            [(''detailed'', PBool detailed),
             (''sample_attribute'', PBool desc),
             (''expand_sample_attributes'', PBool expand)])) (\<lambda>df.
     bnd (print_save_df w df saveto) (\<lambda>_.
     emit (Close sradb)))))"

definition srs_to_srx ::
  "world \<Rightarrow> pyval \<Rightarrow> string option \<Rightarrow> string option \<Rightarrow> bool \<Rightarrow> bool \<Rightarrow> bool \<Rightarrow> unit prog" where
  "srs_to_srx w srs_ids db saveto detailed desc expand =
     bnd (check_sradb_file w db) (\<lambda>db.
     bnd (get_sra_object w db) (\<lambda>sradb.
     bnd (ask w (Method sradb ''srs_to_srx'' [srs_ids]
            [(''detailed'', PBool detailed),
             (''sample_attribute'', PBool desc),
             (''expand_sample_attributes'', PBool expand)])) (\<lambda>df.
     bnd (print_save_df w df saveto) (\<lambda>_.
     emit (Close sradb)))))"

definition srx_to_srp ::
  "world \<Rightarrow> pyval \<Rightarrow> string option \<Rightarrow> string option \<Rightarrow> bool \<Rightarrow> bool \<Rightarrow> bool \<Rightarrow> unit prog" where
  "srx_to_srp w srx_ids db saveto detailed desc expand =
     bnd (check_sradb_file w db) (\<lambda>db.
     bnd (get_sra_object w db) (\<lambda>sradb.
     bnd (ask w (Method sradb ''srx_to_srp'' [srx_ids]
            [(''detailed'', PBool detailed),
             (''sample_attribute'', PBool desc),
             (''expand_sample_attributes'', PBool expand)])) (\<lambda>df.
     bnd (print_save_df w df saveto) (\<lambda>_.
     emit (Close sradb)))))"

definition srx_to_srr ::
  "world \<Rightarrow> pyval \<Rightarrow> string option \<Rightarrow> string option \<Rightarrow> bool \<Rightarrow> bool \<Rightarrow> bool \<Rightarrow> unit prog" where
  "srx_to_srr w srx_ids db saveto detailed desc expand =
     bnd (check_sradb_file w db) (\<lambda>db.
     bnd (get_sra_object w db) (\<lambda>sradb.
     bnd (ask w (Method sradb ''srx_to_srr'' [srx_ids]
            [(''detailed'', PBool detailed),
             (''sample_attribute'', PBool desc),
             (''expand_sample_attributes'', PBool expand)])) (\<lambda>df.
     bnd (print_save_df w df saveto) (\<lambda>_.
     emit (Close sradb)))))"

definition srx_to_srs ::
  "world \<Rightarrow> pyval \<Rightarrow> string option \<Rightarrow> string option \<Rightarrow> bool \<Rightarrow> bool \<Rightarrow> bool \<Rightarrow> unit prog" where
  "srx_to_srs w srx_ids db saveto detailed desc expand =
     bnd (check_sradb_file w db) (\<lambda>db.
     bnd (get_sra_object w db) (\<lambda>sradb.
     bnd (ask w (Method sradb ''srx_to_srs'' [srx_ids]
            [(''detailed'', PBool detailed),
             (''sample_attribute'', PBool desc),
             (''expand_sample_attributes'', PBool expand)])) (\<lambda>df.
     bnd (print_save_df w df saveto) (\<lambda>_.
     emit (Close sradb)))))"

subsection \<open>\<^verbatim>\<open>parse_args\<close>: the parsed command line and the dispatch on it\<close>

text \<open>
  The namespace that \<^verbatim>\<open>argparse\<close> returns. \<open>command\<close> is the name of the subcommand,
  \<open>func\<close> the name of the function that the subcommand's parser registered with
  \<^verbatim>\<open>set_defaults(func=...)\<close>; the other attributes are those of the subparsers
  (\<open>max_arg\<close> is the attribute \<^verbatim>\<open>max\<close>). An attribute that is only handed on is a
  \<open>pyval\<close>.
\<close>

record namespace =
  command :: string
  func :: string
  out_dir :: "string option"
  overwrite :: bool
  keep_gz :: bool
  srp_id :: pyval
  db :: "string option"
  assay :: bool
  desc :: bool
  detailed :: bool
  expand :: bool
  saveto :: "string option"
  srx :: pyval
  srp :: "string list option"
  skip_confirmation :: bool
  use_wget :: bool
  col :: string
  verbosity :: int
  max_arg :: int
  query :: pyval
  accession :: pyval
  organism :: pyval
  layout :: pyval
  mbases :: pyval
  publication_date :: pyval
  platform :: pyval
  selection :: pyval
  source :: pyval
  strategy :: pyval
  title :: pyval
  geo_query :: pyval
  geo_dataset_type :: pyval
  geo_entry_type :: pyval
  gse_ids :: pyval
  gsm_ids :: pyval
  srr_ids :: pyval
  srs_ids :: pyval
  srx_ids :: pyval


definition opt_str :: "string option \<Rightarrow> pyval" where
  "opt_str x = (case x of None \<Rightarrow> PNone | Some s \<Rightarrow> PStr s)"

text \<open>\<^verbatim>\<open>vars(args)\<close> of a namespace of the \<^verbatim>\<open>search\<close> subparser.\<close>

definition vars :: "namespace \<Rightarrow> (string \<rightharpoonup> pyval)" where
  "vars args = map_of
     [(''command'', PStr (command args)),
      (''saveto'', opt_str (saveto args)),
      (''db'', opt_str (db args)),
      (''verbosity'', PInt (verbosity args)),
      (''max'', PInt (max_arg args)),
      (''query'', query args),
      (''accession'', accession args),
      (''organism'', organism args),
      (''layout'', layout args),
      (''mbases'', mbases args),
      (''publication_date'', publication_date args),
      (''platform'', platform args),
      (''selection'', selection args),
      (''source'', source args),
      (''strategy'', strategy args),
      (''title'', title args),
      (''geo_query'', geo_query args),
      (''geo_dataset_type'', geo_dataset_type args),
      (''geo_entry_type'', geo_entry_type args),
      (''func'', PFunc (func args))]"

text \<open>
  The chain of comparisons on \<^verbatim>\<open>args.command\<close>. \<^verbatim>\<open>download\<close> is called with six
  arguments, so its \<^verbatim>\<open>use_wget\<close> is the default \<^verbatim>\<open>True\<close>; the four
  \<^verbatim>\<open>flags.pop\<close> of the \<^verbatim>\<open>search\<close> branch remove their keys from the dictionary that
  is passed as \<^verbatim>\<open>fields\<close>. A command that matches no branch does nothing.
\<close>

definition parse_args :: "world \<Rightarrow> namespace \<Rightarrow> unit prog" where
  "parse_args w args =
     (if command args = ''metadb'' then
        metadb w (out_dir args) (overwrite args) (keep_gz args)
      else if command args = ''metadata'' then
        metadata w (srp_id args) (db args) (assay args) (desc args) (detailed args)
          (expand args) (saveto args)
      else if command args = ''download'' then
        download w (out_dir args) (db args) (srx args) (srp args)
          (skip_confirmation args) (col args) True
      else if command args = ''search'' then
        (let flags = vars args in
         search w (saveto args) (db args) (verbosity args) (max_arg args)
           (flags(''saveto'' := None, ''db'' := None, ''verbosity'' := None,
                  ''max'' := None)))
      else if command args = ''gse-to-gsm'' then
        gse_to_gsm w (gse_ids args) (db args) (saveto args) (detailed args) (desc args)
          (expand args)
      else if command args = ''gse-to-srp'' then
        gse_to_srp w (gse_ids args) (db args) (saveto args) (detailed args) (desc args)
          (expand args)
      else if command args = ''gsm-to-gse'' then
        gsm_to_gse w (gsm_ids args) (db args) (saveto args) (detailed args) (desc args)
          (expand args)
      else if command args = ''gsm-to-srp'' then
        gsm_to_srp w (gsm_ids args) (db args) (saveto args) (detailed args) (desc args)
          (expand args)
      else if command args = ''gsm-to-srr'' then
        gsm_to_srr w (gsm_ids args) (db args) (saveto args) (detailed args) (desc args)
          (expand args)
      else if command args = ''gsm-to-srs'' then
        gsm_to_srs w (gsm_ids args) (db args) (saveto args) (detailed args) (desc args)
          (expand args)
      else if command args = ''gsm-to-srx'' then
        gsm_to_srx w (gsm_ids args) (db args) (saveto args) (detailed args) (desc args)
          (expand args)
      else if command args = ''srp-to-gse'' then
        srp_to_gse w (srp_id args) (db args) (saveto args) (detailed args) (desc args)
          (expand args)
      else if command args = ''srp-to-srr'' then
        srp_to_srr w (srp_id args) (db args) (saveto args) (detailed args) (desc args)
          (expand args)
      else if command args = ''srp-to-srs'' then
        srp_to_srs w (srp_id args) (db args) (saveto args) (detailed args) (desc args)
          (expand args)
      else if command args = ''srp-to-srx'' then
        srp_to_srx w (srp_id args) (db args) (saveto args) (detailed args) (desc args)
          (expand args)
      else if command args = ''srr-to-gsm'' then
        srr_to_gsm w (srr_ids args) (db args) (saveto args) (detailed args) (desc args)
          (expand args)
      else if command args = ''srr-to-srp'' then
        srr_to_srp w (srr_ids args) (db args) (saveto args) (detailed args) (desc args)
          (expand args)
      else if command args = ''srr-to-srs'' then
        srr_to_srs w (srr_ids args) (db args) (saveto args) (detailed args) (desc args)
          (expand args)
      else if command args = ''srr-to-srx'' then
        srr_to_srx w (srr_ids args) (db args) (saveto args) (detailed args) (desc args)
          (expand args)
      else if command args = ''srs-to-gsm'' then
        srs_to_gsm w (srs_ids args) (db args) (saveto args) (detailed args) (desc args)
          (expand args)
      else if command args = ''srs-to-srx'' then
        srs_to_srx w (srs_ids args) (db args) (saveto args) (detailed args) (desc args)
          (expand args)
      else if command args = ''srx-to-srp'' then
        srx_to_srp w (srx_ids args) (db args) (saveto args) (detailed args) (desc args)
          (expand args)
      else if command args = ''srx-to-srr'' then
        srx_to_srr w (srx_ids args) (db args) (saveto args) (detailed args) (desc args)
          (expand args)
      else if command args = ''srx-to-srs'' then
        srx_to_srs w (srx_ids args) (db args) (saveto args) (detailed args) (desc args)
          (expand args)
      else ret ())"

section \<open>Vocabulary of the statements\<close>

text \<open>
  What a trace wrote to standard output: \<^verbatim>\<open>print\<close> ends its argument with a line feed.
\<close>

fun printed :: "event list \<Rightarrow> string" where
  "printed [] = []"
| "printed (Print s # evs) = s @ [newline] @ printed evs"
| "printed (ev # evs) = printed evs"

text \<open>The events that only write: to a file, to standard output, to a pandas option.\<close>

fun is_output :: "event \<Rightarrow> bool" where
  "is_output (To_csv df p sep) = True"
| "is_output (Set_option k v) = True"
| "is_output (Print s) = True"
| "is_output ev = False"

text \<open>
  The spec's words for the test on the destination path, "ends in \<^verbatim>\<open>.csv\<close>,
  case-insensitively": the last four characters are a dot, \<^verbatim>\<open>c\<close> or \<^verbatim>\<open>C\<close>,
  \<^verbatim>\<open>s\<close> or \<^verbatim>\<open>S\<close>, \<^verbatim>\<open>v\<close> or \<^verbatim>\<open>V\<close>. The source computes
  \<^verbatim>\<open>saveto.lower().endswith(".csv")\<close>; the two are proved equal below.
\<close>

definition ends_in_csv :: "string \<Rightarrow> bool" where
  "ends_in_csv p =
     (case rev p of
        v # s # c # d # stem \<Rightarrow>
          d = CHR ''.'' \<and> (c = CHR ''c'' \<or> c = CHR ''C'') \<and> (s = CHR ''s'' \<or> s = CHR ''S'')
          \<and> (v = CHR ''v'' \<or> v = CHR ''V'')
      | _ \<Rightarrow> False)"

text \<open>The subcommands that convert identifiers, in the order of the dispatch.\<close>

definition conversion_commands :: "string list" where
  "conversion_commands =
     [''gse-to-gsm'',
      ''gse-to-srp'',
      ''gsm-to-gse'',
      ''gsm-to-srp'',
      ''gsm-to-srr'',
      ''gsm-to-srs'',
      ''gsm-to-srx'',
      ''srp-to-gse'',
      ''srp-to-srr'',
      ''srp-to-srs'',
      ''srp-to-srx'',
      ''srr-to-gsm'',
      ''srr-to-srp'',
      ''srr-to-srs'',
      ''srr-to-srx'',
      ''srs-to-gsm'',
      ''srs-to-srx'',
      ''srx-to-srp'',
      ''srx-to-srr'',
      ''srx-to-srs'']"

text \<open>
  The shape that the twenty conversion handlers and \<^verbatim>\<open>metadata\<close> have in common; each
  handler is proved equal to an instance of it below.
\<close>

definition convert ::
  "world \<Rightarrow> string \<Rightarrow> pyval \<Rightarrow> string option \<Rightarrow> string option \<Rightarrow> (string \<times> pyval) list
     \<Rightarrow> unit prog" where
  "convert w m ids d s kw =
     bnd (check_sradb_file w d) (\<lambda>p.
     bnd (get_sra_object w p) (\<lambda>sradb.
     bnd (ask w (Method sradb m [ids] kw)) (\<lambda>df.
     bnd (print_save_df w df s) (\<lambda>_.
     emit (Close sradb)))))"

definition flags3 :: "bool \<Rightarrow> bool \<Rightarrow> bool \<Rightarrow> (string \<times> pyval) list" where
  "flags3 a b c =
     [(''detailed'', PBool a), (''sample_attribute'', PBool b),
      (''expand_sample_attributes'', PBool c)]"

text \<open>The name of a subcommand with its dashes turned into underscores.\<close>

definition underscored :: "string \<Rightarrow> string" where
  "underscored c = map (\<lambda>x. if x = CHR ''-'' then CHR ''_'' else x) c"

text \<open>The attribute that holds the identifiers of a conversion subcommand.\<close>

definition ids_attr :: "namespace \<Rightarrow> pyval" where
  "ids_attr ns =
     (let k = take 3 (command ns) in
      if k = ''gse'' then gse_ids ns
      else if k = ''gsm'' then gsm_ids ns
      else if k = ''srp'' then srp_id ns
      else if k = ''srr'' then srr_ids ns
      else if k = ''srs'' then srs_ids ns
      else srx_ids ns)"

text \<open>The metadata source that \<^verbatim>\<open>get_sra_object\<close> builds for a value of \<^verbatim>\<open>db\<close>.\<close>

definition chosen :: "string \<Rightarrow> sra_object" where
  "chosen p = (if p = ''web'' then SRAweb else SRAdb p)"

text \<open>The output directory that \<^verbatim>\<open>download\<close> uses.\<close>

definition out_dir_of :: "world \<Rightarrow> string option \<Rightarrow> string" where
  "out_dir_of w od = (case od of None \<Rightarrow> path_join (getcwd w) ''pysradb_downloads'' | Some d \<Rightarrow> d)"

text \<open>
  The keyword arguments of the two calls of \<^verbatim>\<open>download\<close> on a metadata source: the
  one of the branch that reads standard input, and the one of the \<^verbatim>\<open>--srp\<close> branch.
\<close>

definition kw_stdin :: "table \<Rightarrow> string \<Rightarrow> pyval \<Rightarrow> string \<Rightarrow> string \<Rightarrow> (string \<times> pyval) list" where
  "kw_stdin df od x protocol c =
     [(''df'', PTable df), (''out_dir'', PStr od), (''filter_by_srx'', x),
      (''skip_confirmation'', PBool True), (''protocol'', PStr protocol),
      (''url_col'', PStr c)]"

definition kw_srp :: "table \<Rightarrow> string \<Rightarrow> pyval \<Rightarrow> bool \<Rightarrow> (string \<times> pyval) list" where
  "kw_srp df od x skip =
     [(''df'', PTable df), (''out_dir'', PStr od), (''filter_by_srx'', x),
      (''skip_confirmation'', PBool skip)]"

text \<open>
  The eleven filter fields that every backend receives, and the three that only the GEO
  backend receives, in the positional order of the constructors.
\<close>

definition common_fields :: "string list" where
  "common_fields =
     [''query'', ''accession'', ''organism'', ''layout'', ''mbases'', ''publication_date'',
      ''platform'', ''selection'', ''source'', ''strategy'', ''title'']"

definition geo_fields :: "string list" where
  "geo_fields = [''geo_query'', ''geo_dataset_type'', ''geo_entry_type'']"

text \<open>The constructor and the keys that \<^verbatim>\<open>search\<close> uses for a value of \<^verbatim>\<open>db\<close>.\<close>

definition backend :: "string option \<Rightarrow> pyval list \<Rightarrow> search_instance" where
  "backend d = (if d = Some ''ena'' then EnaSearch else if d = Some ''geo'' then GeoSearch
                else SraSearch)"

definition keys_of :: "string option \<Rightarrow> string list" where
  "keys_of d = (if d = Some ''geo'' then common_fields @ geo_fields else common_fields)"

text \<open>The dictionary that the dispatch passes to \<^verbatim>\<open>search\<close> as \<^verbatim>\<open>fields\<close>.\<close>

definition fields_of :: "namespace \<Rightarrow> (string \<rightharpoonup> pyval)" where
  "fields_of ns = (vars ns)(''saveto'' := None, ''db'' := None, ''verbosity'' := None,
                           ''max'' := None)"

section \<open>Concrete inputs\<close>

definition df0 :: table where
  "df0 = \<lparr> columns = [''study_alias'', ''study_accession''], rows = [[''GSE1'', ''SRP1'']] \<rparr>"

definition df_empty :: table where
  "df_empty = \<lparr> columns = [''run_accession'', ''study_accession''], rows = [] \<rparr>"

text \<open>
  A world in which no call fails and every query answers \<open>df0\<close>; the working directory
  holds no snapshot, and a table of one row is piped in.
\<close>

definition w0 :: world where
  "w0 = \<lparr> getcwd = ''/home/user'',
          isfile = (\<lambda>p. p = ''/data/SRAmetadb.sqlite''),
          stdin = [''run_accession  study_accession'', ''SRR000001  SRP000001''],
          to_string = (\<lambda>df. join linesep (map (join '' '') (rows df))),
          fails = (\<lambda>tr ev. None),
          answer = (\<lambda>tr ev. Inr df0) \<rparr>"

text \<open>The defaults of the parsers, with no subcommand chosen.\<close>

definition ns0 :: namespace where
  "ns0 = \<lparr> command = [], func = [], out_dir = None, overwrite = False, keep_gz = False,
           srp_id = PNone, db = None, assay = False, desc = False, detailed = False,
           expand = False, saveto = None, srx = PNone, srp = None,
           skip_confirmation = False, use_wget = False, col = ''sra_url'',
           verbosity = 2, max_arg = 20, query = PNone, accession = PNone,
           organism = PNone, layout = PNone, mbases = PNone, publication_date = PNone,
           platform = PNone, selection = PNone, source = PNone, strategy = PNone,
           title = PNone, geo_query = PNone, geo_dataset_type = PNone,
           geo_entry_type = PNone, gse_ids = PNone, gsm_ids = PNone, srr_ids = PNone,
           srs_ids = PNone, srx_ids = PNone \<rparr>"

definition ns_gse_to_srp :: namespace where
  "ns_gse_to_srp = ns0\<lparr>command := ''gse-to-srp'', func := ''gse_to_gsm'',
     gse_ids := PList [''GSE1''], detailed := True, expand := True\<rparr>"

text \<open>Two invocations of \<^verbatim>\<open>download\<close>: a table on standard input, and \<^verbatim>\<open>--srp\<close>.\<close>

definition ns_download :: namespace where
  "ns_download = ns0\<lparr>command := ''download'', func := ''download''\<rparr>"

definition ns_download_srp :: namespace where
  "ns_download_srp = ns0\<lparr>command := ''download'', func := ''download'',
     srp := Some [''SRP000001''], use_wget := True\<rparr>"


definition ns_search_geo :: namespace where
  "ns_search_geo = ns0\<lparr>command := ''search'', func := ''search'', db := Some ''geo'',
     query := PList [''ribosome'', ''profiling''], geo_query := PList [''human'']\<rparr>"



section \<open>Properties\<close>

subsection \<open>Evaluating the concrete inputs\<close>

lemmas prog_defs = ret_def raise_def bnd_def emit_def act_def ask_def

lemma w0_simps:
  "getcwd w0 = ''/home/user''"
  "isfile w0 p = (p = ''/data/SRAmetadb.sqlite'')"
  "to_string w0 df = join linesep (map (join '' '') (rows df))"
  "fails w0 tr ev = None"
  "answer w0 tr ev = Inr df0"
  by (simp_all add: w0_def)

lemma df0_simps:
  "columns df0 = [''study_alias'', ''study_accession'']"
  "rows df0 = [[''GSE1'', ''SRP1'']]"
  "columns df_empty = [''run_accession'', ''study_accession'']"
  "rows df_empty = []"
  by (simp_all add: df0_def df_empty_def)

lemma cwd_join:
  "path_join ''/home/user'' ''SRAmetadb.sqlite'' = ''/home/user/SRAmetadb.sqlite''"
  "path_join ''/home/user'' ''pysradb_downloads'' = ''/home/user/pysradb_downloads''"
  by (simp_all add: path_join_def endswith_def)

subsection \<open>The test on the destination path\<close>

lemma of_char_lt: "(of_char x :: nat) < 256"
  by (cases x) (simp)

lemma endswith_rev: "endswith s suf \<longleftrightarrow> take (length suf) (rev s) = rev suf"
proof
  assume "endswith s suf"
  then have l: "length suf \<le> length s" and d: "drop (length s - length suf) s = suf"
    by (simp_all add: endswith_def)
  have "rev suf = rev (drop (length s - length suf) s)" using d by simp
  also have "\<dots> = take (length suf) (rev s)" using l by (simp add: rev_drop)
  finally show "take (length suf) (rev s) = rev suf" by simp
next
  assume a: "take (length suf) (rev s) = rev suf"
  then have "length (take (length suf) (rev s)) = length (rev suf)" by simp
  then have l: "length suf \<le> length s" by simp
  have "drop (length s - length suf) s = rev (take (length suf) (rev s))"
    using l by (simp add: rev_take)
  then show "endswith s suf" using a l by (simp add: endswith_def)
qed

lemma of_char_lower:
  "(of_char (lower_char x) :: nat) =
     (if (65 \<le> (of_char x :: nat) \<and> (of_char x :: nat) \<le> 90)
         \<or> (192 \<le> (of_char x :: nat) \<and> (of_char x :: nat) \<le> 222 \<and> (of_char x :: nat) \<noteq> 215)
      then of_char x + 32 else of_char x)"
  using of_char_lt [of x] by (simp add: lower_char_def Let_def)

lemma char_eq_code: "x = y \<longleftrightarrow> (of_char x :: nat) = of_char y"
  by simp

lemma lower_char_dot: "lower_char x = CHR ''.'' \<longleftrightarrow> x = CHR ''.''"
  by (simp add: char_eq_code [of _ "CHR ''.''"] of_char_lower)

lemma lower_char_c: "lower_char x = CHR ''c'' \<longleftrightarrow> x = CHR ''c'' \<or> x = CHR ''C''"
  by (auto simp add: char_eq_code [of _ "CHR ''c''"] char_eq_code [of _ "CHR ''C''"] of_char_lower)

lemma lower_char_s: "lower_char x = CHR ''s'' \<longleftrightarrow> x = CHR ''s'' \<or> x = CHR ''S''"
  by (auto simp add: char_eq_code [of _ "CHR ''s''"] char_eq_code [of _ "CHR ''S''"] of_char_lower)

lemma lower_char_v: "lower_char x = CHR ''v'' \<longleftrightarrow> x = CHR ''v'' \<or> x = CHR ''V''"
  by (auto simp add: char_eq_code [of _ "CHR ''v''"] char_eq_code [of _ "CHR ''V''"] of_char_lower)

lemma endswith_lower_csv: "endswith (lower p) ''.csv'' \<longleftrightarrow> ends_in_csv p"
proof -
  have "endswith (lower p) ''.csv'' \<longleftrightarrow> take (Suc (Suc (Suc (Suc 0)))) (map lower_char (rev p)) = ''vsc.''"
    by (simp add: endswith_rev lower_def rev_map)
  also have "\<dots> \<longleftrightarrow> ends_in_csv p"
    by (auto simp add: ends_in_csv_def lower_char_dot lower_char_c lower_char_s lower_char_v
          split: list.splits)
  finally show ?thesis .
qed

subsection \<open>Printing and saving a table\<close>

lemma split_not_Nil: "split c s \<noteq> []"
  by (induction s) (auto split: list.splits)

lemma join_Cons: "ls \<noteq> [] \<Longrightarrow> join sep (h # ls) = h @ sep @ join sep ls"
  by (cases ls) simp_all

lemma print_save_df_file:
  "p \<noteq> [] \<Longrightarrow> print_save_df w df (Some p) tr =
     (Inr (), tr @ [To_csv df p (if ends_in_csv p then '','' else [tab])])"
  by (simp add: print_save_df_def endswith_lower_csv emit_def)

lemma print_save_df_stdout:
  "rows df \<noteq> [] \<Longrightarrow> print_save_df w df None tr =
     (Inr (), tr @ [Set_option ''display.max_colwidth'' PNone,
        Print (join [tab] (columns df) @ linesep
               @ join linesep (map lstrip (split newline (lstrip (to_string w df)))))])"
  by (simp add: print_save_df_def prog_defs Let_def join_Cons split_not_Nil)

lemma print_save_df_nothing:
  "rows df = [] \<Longrightarrow> print_save_df w df None tr = (Inr (), tr)"
  by (simp add: print_save_df_def prog_defs)

lemma print_save_df_output:
  "\<exists>out. print_save_df w df s tr = (Inr (), tr @ out) \<and> (\<forall>ev\<in>set out. is_output ev)"
  by (simp add: print_save_df_def prog_defs Let_def)

text \<open>
  Claim C3, as the code has it. A destination path that is not empty and ends in
  \<^verbatim>\<open>.csv\<close> (in any mix of cases) is written with a comma as separator; any other
  non-empty path is written to that file with a tab as separator. With no path nothing
  goes to a file: a table of at least one row is printed to standard output as the column
  names joined by tabs, then the lines of its \<^verbatim>\<open>to_string\<close> rendering with their
  leading blanks removed; a table of no rows prints nothing at all.
\<close>

theorem print_save_df_separator:
  "(p \<noteq> [] \<and> ends_in_csv p \<longrightarrow>
      print_save_df w df (Some p) [] = (Inr (), [To_csv df p '','']))
   \<and> (p \<noteq> [] \<and> \<not> ends_in_csv p \<longrightarrow>
      print_save_df w df (Some p) [] = (Inr (), [To_csv df p [tab]]))
   \<and> (rows df \<noteq> [] \<longrightarrow>
      print_save_df w df None [] =
        (Inr (), [Set_option ''display.max_colwidth'' PNone,
                  Print (join [tab] (columns df) @ linesep
                         @ join linesep (map lstrip (split newline (lstrip (to_string w df)))))]))
   \<and> (rows df = [] \<longrightarrow> print_save_df w df None [] = (Inr (), []))"
  by (simp add: print_save_df_file print_save_df_stdout print_save_df_nothing)

text \<open>The three destinations on a table of one row, and the table of no rows.\<close>

theorem print_save_df_separator_witness:
  "print_save_df w0 df0 (Some ''out.CSV'') [] = (Inr (), [To_csv df0 ''out.CSV'' '',''])
   \<and> print_save_df w0 df0 (Some ''out.tsv'') [] = (Inr (), [To_csv df0 ''out.tsv'' [tab]])
   \<and> print_save_df w0 df0 None [] =
       (Inr (), [Set_option ''display.max_colwidth'' PNone,
                 Print (''study_alias'' @ [tab] @ ''study_accession'' @ linesep @ ''GSE1 SRP1'')])
   \<and> print_save_df w0 df_empty None [] = (Inr (), [])"
  using print_save_df_separator [of "''out.CSV''" w0 df0]
    print_save_df_separator [of "''out.tsv''" w0 df0]
    print_save_df_separator [of "[]" w0 df_empty]
  by (simp add: ends_in_csv_def df0_simps w0_simps newline_def lstrip_def isspace_def
        linesep_def)

text \<open>
  Against C3 as stated ("when no path is given the table is written tab-separated to
  standard output"): for a table of two columns and no rows, with no path, the trace is
  empty. Nothing was written.
\<close>

theorem print_save_df_empty_table_counterexample:
  "snd (print_save_df w0 df_empty None []) = []"
  by (simp add: print_save_df_nothing df0_simps)

text \<open>
  Claim C4, as the code has it. With no destination path, the output of a table of at
  least one row begins with a header line: the column names joined by tabs, then the line
  separator. For a table of no rows nothing is printed, so there is no header line.
\<close>

theorem stdout_header_line:
  "(rows df \<noteq> [] \<longrightarrow>
      (\<exists>rest. printed (snd (print_save_df w df None [])) =
                join [tab] (columns df) @ linesep @ rest))
   \<and> (rows df = [] \<longrightarrow> printed (snd (print_save_df w df None [])) = [])"
  by (simp add: print_save_df_stdout print_save_df_nothing)

text \<open>The header line of the table of one row.\<close>

theorem stdout_header_line_witness:
  "rows df0 \<noteq> [] \<and>
   prefix (''study_alias'' @ [tab] @ ''study_accession'' @ linesep)
     (printed (snd (print_save_df w0 df0 None [])))"
  using stdout_header_line [of df0 w0]
  by (auto simp add: df0_simps)

text \<open>
  Against C4 as stated ("including a table with zero rows, the output begins with a
  header line"): for the table of two columns and no rows, the output does not begin with
  its column names joined by a tab.
\<close>

theorem stdout_header_zero_rows_counterexample:
  "\<not> prefix (join [tab] (columns df_empty))
       (printed (snd (print_save_df w0 df_empty None [])))"
  by (simp add: print_save_df_nothing df0_simps)

subsection \<open>The check of the snapshot and the choice of the metadata source\<close>

lemma cwd_db_not_web: "path_join a ''SRAmetadb.sqlite'' \<noteq> ''web''"
proof
  assume "path_join a ''SRAmetadb.sqlite'' = ''web''"
  then have "length (path_join a ''SRAmetadb.sqlite'') = 3" by simp
  then show False by (simp add: path_join_def split: if_splits)
qed

lemma check_sradb_file_None:
  "check_sradb_file w None tr =
     (Inr (if isfile w (path_join (getcwd w) ''SRAmetadb.sqlite'')
           then path_join (getcwd w) ''SRAmetadb.sqlite'' else ''web''), tr)"
  by (simp add: check_sradb_file_def prog_defs Let_def)

lemma check_sradb_file_Some:
  "check_sradb_file w (Some p) tr =
     (if isfile w p then Inr p else Inl (RuntimeError (p @ '' does not exist'')), tr)"
  by (simp add: check_sradb_file_def prog_defs)

lemma check_sradb_file_trace: "snd (check_sradb_file w d tr) = tr"
  by (cases d) (simp_all add: check_sradb_file_None check_sradb_file_Some)

lemma get_sra_object_run:
  "get_sra_object w p tr =
     (case fails w tr (Init (chosen p)) of Some e \<Rightarrow> Inl e | None \<Rightarrow> Inr (chosen p),
      tr @ [Init (chosen p)])"
  by (simp add: get_sra_object_def chosen_def prog_defs split: option.splits)

lemma check_w0: "check_sradb_file w0 None tr = (Inr ''web'', tr)"
  by (simp add: check_sradb_file_None w0_simps cwd_join)

subsection \<open>The conversion handlers are one handler\<close>

lemma metadata_convert:
  "metadata w i d a b c e s =
     convert w ''sra_metadata'' i d s ((''assay'', PBool a) # flags3 c b e)"
  by (simp add: metadata_def convert_def flags3_def)

lemma gse_to_gsm_convert:
  "gse_to_gsm w i d s a b c = convert w ''gse_to_gsm'' i d s (flags3 a b c)"
  by (simp add: gse_to_gsm_def convert_def flags3_def)

lemma gse_to_srp_convert:
  "gse_to_srp w i d s a b c = convert w ''gse_to_srp'' i d s (flags3 a b c)"
  by (simp add: gse_to_srp_def convert_def flags3_def)

lemma gsm_to_gse_convert:
  "gsm_to_gse w i d s a b c = convert w ''gsm_to_gse'' i d s (flags3 a b c)"
  by (simp add: gsm_to_gse_def convert_def flags3_def)

lemma gsm_to_srp_convert:
  "gsm_to_srp w i d s a b c = convert w ''gsm_to_srp'' i d s (flags3 a b c)"
  by (simp add: gsm_to_srp_def convert_def flags3_def)

lemma gsm_to_srr_convert:
  "gsm_to_srr w i d s a b c = convert w ''gsm_to_srr'' i d s (flags3 a b c)"
  by (simp add: gsm_to_srr_def convert_def flags3_def)

lemma gsm_to_srs_convert:
  "gsm_to_srs w i d s a b c = convert w ''gsm_to_srs'' i d s (flags3 a b c)"
  by (simp add: gsm_to_srs_def convert_def flags3_def)

lemma gsm_to_srx_convert:
  "gsm_to_srx w i d s a b c = convert w ''gsm_to_srx'' i d s (flags3 a b c)"
  by (simp add: gsm_to_srx_def convert_def flags3_def)

lemma srp_to_gse_convert:
  "srp_to_gse w i d s a b c = convert w ''srp_to_gse'' i d s (flags3 a b c)"
  by (simp add: srp_to_gse_def convert_def flags3_def)

lemma srp_to_srr_convert:
  "srp_to_srr w i d s a b c = convert w ''srp_to_srr'' i d s (flags3 a b c)"
  by (simp add: srp_to_srr_def convert_def flags3_def)

lemma srp_to_srs_convert:
  "srp_to_srs w i d s a b c = convert w ''srp_to_srs'' i d s (flags3 a b c)"
  by (simp add: srp_to_srs_def convert_def flags3_def)

lemma srp_to_srx_convert:
  "srp_to_srx w i d s a b c = convert w ''srp_to_srx'' i d s (flags3 a b c)"
  by (simp add: srp_to_srx_def convert_def flags3_def)

lemma srr_to_gsm_convert:
  "srr_to_gsm w i d s a b c = convert w ''srr_to_gsm'' i d s (flags3 a b c)"
  by (simp add: srr_to_gsm_def convert_def flags3_def)

lemma srr_to_srp_convert:
  "srr_to_srp w i d s a b c = convert w ''srr_to_srp'' i d s (flags3 a b c)"
  by (simp add: srr_to_srp_def convert_def flags3_def)

lemma srr_to_srs_convert:
  "srr_to_srs w i d s a b c = convert w ''srr_to_srs'' i d s (flags3 a b c)"
  by (simp add: srr_to_srs_def convert_def flags3_def)

lemma srr_to_srx_convert:
  "srr_to_srx w i d s a b c = convert w ''srr_to_srx'' i d s (flags3 a b c)"
  by (simp add: srr_to_srx_def convert_def flags3_def)

lemma srs_to_gsm_convert:
  "srs_to_gsm w i d s a b c = convert w ''srs_to_gsm'' i d s (flags3 a b c)"
  by (simp add: srs_to_gsm_def convert_def flags3_def)

lemma srs_to_srx_convert:
  "srs_to_srx w i d s a b c = convert w ''srs_to_srx'' i d s (flags3 a b c)"
  by (simp add: srs_to_srx_def convert_def flags3_def)

lemma srx_to_srp_convert:
  "srx_to_srp w i d s a b c = convert w ''srx_to_srp'' i d s (flags3 a b c)"
  by (simp add: srx_to_srp_def convert_def flags3_def)

lemma srx_to_srr_convert:
  "srx_to_srr w i d s a b c = convert w ''srx_to_srr'' i d s (flags3 a b c)"
  by (simp add: srx_to_srr_def convert_def flags3_def)

lemma srx_to_srs_convert:
  "srx_to_srs w i d s a b c = convert w ''srx_to_srs'' i d s (flags3 a b c)"
  by (simp add: srx_to_srs_def convert_def flags3_def)

lemmas handler_convert =
  gse_to_gsm_convert
  gse_to_srp_convert
  gsm_to_gse_convert
  gsm_to_srp_convert
  gsm_to_srr_convert
  gsm_to_srs_convert
  gsm_to_srx_convert
  srp_to_gse_convert
  srp_to_srr_convert
  srp_to_srs_convert
  srp_to_srx_convert
  srr_to_gsm_convert
  srr_to_srp_convert
  srr_to_srs_convert
  srr_to_srx_convert
  srs_to_gsm_convert
  srs_to_srx_convert
  srx_to_srp_convert
  srx_to_srr_convert
  srx_to_srs_convert

lemma parse_args_conversion:
  assumes "command ns \<in> set conversion_commands"
  shows "parse_args w ns =
           convert w (underscored (command ns)) (ids_attr ns) (db ns) (saveto ns)
             (flags3 (detailed ns) (desc ns) (expand ns))"
  using assms unfolding conversion_commands_def
  by (auto simp add: parse_args_def handler_convert underscored_def ids_attr_def)

lemma parse_args_metadata:
  assumes "command ns = ''metadata''"
  shows "parse_args w ns =
           convert w ''sra_metadata'' (srp_id ns) (db ns) (saveto ns)
             ((''assay'', PBool (assay ns)) # flags3 (detailed ns) (desc ns) (expand ns))"
  using assms by (simp add: parse_args_def metadata_convert)

lemma parse_args_convert_any:
  assumes "command ns \<in> set conversion_commands \<union> {''metadata''}"
  shows "\<exists>m i kw. parse_args w ns = convert w m i (db ns) (saveto ns) kw"
  using assms parse_args_conversion [of ns w] parse_args_metadata [of ns w] by auto

lemma convert_check_fails:
  "check_sradb_file w d tr = (Inl e, tr') \<Longrightarrow> convert w m i d s kw tr = (Inl e, tr')"
  by (simp add: convert_def bnd_def)

lemma convert_check_ok:
  assumes "check_sradb_file w d tr = (Inr p, tr')"
  shows "\<exists>res rest. convert w m i d s kw tr = (res, tr @ Init (chosen p) # rest)
           \<and> (\<forall>ev\<in>set rest. ev = Method (chosen p) m [i] kw \<or> is_output ev
                  \<or> ev = Close (chosen p))
           \<and> (fails w tr (Init (chosen p)) = None \<longrightarrow>
                  Method (chosen p) m [i] kw \<in> set rest)"
proof -
  have tr': "tr' = tr" using assms check_sradb_file_trace [of w d tr] by simp
  show ?thesis
  proof (cases "fails w tr (Init (chosen p))")
    case (Some e)
    then show ?thesis using assms tr'
      by (simp add: convert_def bnd_def get_sra_object_run)
  next
    case None
    show ?thesis
    proof (cases "answer w (tr @ [Init (chosen p)]) (Method (chosen p) m [i] kw)")
      case (Inl e)
      then show ?thesis using assms tr' None
        by (simp add: convert_def bnd_def get_sra_object_run ask_def)
    next
      case (Inr df)
      obtain out where out: "print_save_df w df s (tr @ [Init (chosen p), Method (chosen p) m [i] kw])
          = (Inr (), (tr @ [Init (chosen p), Method (chosen p) m [i] kw]) @ out)"
        and o: "\<forall>ev\<in>set out. is_output ev"
        using print_save_df_output by blast
      show ?thesis using assms tr' None Inr out o
        by (auto simp add: convert_def bnd_def get_sra_object_run ask_def emit_def)
    qed
  qed
qed

lemma convert_methods:
  assumes "Method obj m' a kw' \<in> set (snd (convert w m i d s kw []))"
  shows "m' = m \<and> a = [i] \<and> kw' = kw \<and> Init obj \<in> set (snd (convert w m i d s kw []))"
proof (cases "check_sradb_file w d []")
  case (Pair r tr')
  show ?thesis
  proof (cases r)
    case (Inl e)
    then show ?thesis using assms Pair by (simp add: convert_check_fails check_sradb_file_trace)
       (metis check_sradb_file_trace empty_iff list.set(1) snd_conv)
  next
    case (Inr p)
    with Pair have "check_sradb_file w d [] = (Inr p, tr')" by simp
    from convert_check_ok [OF this, of m i s kw]
    obtain res rest where r: "convert w m i d s kw [] = (res, Init (chosen p) # rest)"
      and s: "\<forall>ev\<in>set rest. ev = Method (chosen p) m [i] kw \<or> is_output ev
                  \<or> ev = Close (chosen p)"
      by auto
    have "Method obj m' a kw' \<in> set rest" using assms r by simp
    with s have "Method obj m' a kw' = Method (chosen p) m [i] kw
        \<or> is_output (Method obj m' a kw') \<or> Method obj m' a kw' = Close (chosen p)"
      by blast
    then have "obj = chosen p \<and> m' = m \<and> a = [i] \<and> kw' = kw" by simp
    then show ?thesis using r by simp
  qed
qed

lemma map_of_flags3:
  "map_of (flags3 a b c) ''detailed'' = Some (PBool a)"
  "map_of (flags3 a b c) ''sample_attribute'' = Some (PBool b)"
  "map_of (flags3 a b c) ''expand_sample_attributes'' = Some (PBool c)"
  "map_of ((''assay'', x) # flags3 a b c) ''detailed'' = Some (PBool a)"
  "map_of ((''assay'', x) # flags3 a b c) ''sample_attribute'' = Some (PBool b)"
  "map_of ((''assay'', x) # flags3 a b c) ''expand_sample_attributes'' = Some (PBool c)"
  by (simp_all add: flags3_def)

lemma forwarded_call:
  assumes "command ns \<in> set conversion_commands \<union> {''metadata''}"
    and "Method obj m a kw \<in> set (snd (parse_args w ns []))"
  shows "Init obj \<in> set (snd (parse_args w ns []))
          \<and> map_of kw ''detailed'' = Some (PBool (detailed ns))
          \<and> map_of kw ''sample_attribute'' = Some (PBool (desc ns))
          \<and> map_of kw ''expand_sample_attributes'' = Some (PBool (expand ns))
          \<and> (command ns \<noteq> ''metadata'' \<longrightarrow>
                m = map (\<lambda>x. if x = CHR ''-'' then CHR ''_'' else x) (command ns)
              \<and> kw = [(''detailed'', PBool (detailed ns)),
                       (''sample_attribute'', PBool (desc ns)),
                       (''expand_sample_attributes'', PBool (expand ns))])"
proof (cases "command ns = ''metadata''")
  case True
  let ?kw = "(''assay'', PBool (assay ns)) # flags3 (detailed ns) (desc ns) (expand ns)"
  have c: "parse_args w ns = convert w ''sra_metadata'' (srp_id ns) (db ns) (saveto ns) ?kw"
    using True by (rule parse_args_metadata)
  have "Init obj \<in> set (snd (parse_args w ns [])) \<and> kw = ?kw"
    using convert_methods [of obj m a kw w "''sra_metadata''" "srp_id ns" "db ns" "saveto ns" ?kw]
      assms(2) by (simp add: c)
  then show ?thesis using True by (simp add: map_of_flags3)
next
  case False
  let ?kw = "flags3 (detailed ns) (desc ns) (expand ns)"
  let ?m = "underscored (command ns)"
  have c: "parse_args w ns = convert w ?m (ids_attr ns) (db ns) (saveto ns) ?kw"
    using False assms(1) by (auto intro: parse_args_conversion)
  have "Init obj \<in> set (snd (parse_args w ns [])) \<and> kw = ?kw \<and> m = ?m"
    using convert_methods [of obj m a kw w ?m "ids_attr ns" "db ns" "saveto ns" ?kw]
      assms(2) by (simp add: c)
  then show ?thesis by (simp add: map_of_flags3) (simp add: flags3_def underscored_def)
qed

lemma call_is_made:
  assumes "command ns \<in> set conversion_commands \<union> {''metadata''}"
    and "check_sradb_file w (db ns) [] = (Inr p, [])"
    and "fails w [] (Init (chosen p)) = None"
  shows "\<exists>m a kw. Method (chosen p) m a kw \<in> set (snd (parse_args w ns []))"
proof -
  obtain m i kw where c: "parse_args w ns = convert w m i (db ns) (saveto ns) kw"
    using parse_args_convert_any [OF assms(1)] by blast
  from convert_check_ok [OF assms(2), of m i "saveto ns" kw] assms(3)
  have "Method (chosen p) m [i] kw \<in> set (snd (parse_args w ns []))"
    by (auto simp add: c)
  then show ?thesis by blast
qed


text \<open>
  Claim C5. For each of the conversion subcommands and for \<^verbatim>\<open>metadata\<close>, an explicit
  \<^verbatim>\<open>--db\<close> path that is not an existing file ends the run with a
  \<^verbatim>\<open>RuntimeError\<close> whose message is the path followed by "does not exist"; the trace
  is empty, so no metadata source was built and nothing was resolved.
\<close>

theorem missing_db_file_is_fatal:
  assumes "command ns \<in> set conversion_commands \<union> {''metadata''}"
    and "db ns = Some p" and "\<not> isfile w p"
  shows "parse_args w ns [] = (Inl (RuntimeError (p @ '' does not exist'')), [])"
proof -
  obtain m i kw where "parse_args w ns = convert w m i (db ns) (saveto ns) kw"
    using parse_args_convert_any [OF assms(1)] by blast
  moreover have "check_sradb_file w (db ns) [] = (Inl (RuntimeError (p @ '' does not exist'')), [])"
    using assms(2,3) by (simp add: check_sradb_file_Some)
  ultimately show ?thesis by (simp add: convert_check_fails)
qed

text \<open>\<^verbatim>\<open>pysradb srr-to-srx --db /tmp/SRAmetadb.sqlite ...\<close> where no such file exists.\<close>

theorem missing_db_file_is_fatal_witness:
  "parse_args w0 (ns0\<lparr>command := ''srr-to-srx'', db := Some ''/tmp/SRAmetadb.sqlite''\<rparr>) []
     = (Inl (RuntimeError ''/tmp/SRAmetadb.sqlite does not exist''), [])"
  using missing_db_file_is_fatal
     [of "ns0\<lparr>command := ''srr-to-srx'', db := Some ''/tmp/SRAmetadb.sqlite''\<rparr>"
         "''/tmp/SRAmetadb.sqlite''" w0]
  by (simp add: conversion_commands_def ns0_def w0_simps)

text \<open>
  Claim C6. For each of the conversion subcommands and for \<^verbatim>\<open>metadata\<close>, when no
  \<^verbatim>\<open>--db\<close> is given the first thing that happens is the construction of the metadata
  source: the local snapshot \<^verbatim>\<open>SRAmetadb.sqlite\<close> of the working directory if that
  file exists, the web source otherwise. The check raises nothing, and everything that
  follows is a method call on that source, its closing, or output: nothing is
  downloaded.
\<close>

theorem no_db_probes_working_directory:
  assumes "command ns \<in> set conversion_commands \<union> {''metadata''}" and "db ns = None"
  shows "\<exists>res rest obj. parse_args w ns [] = (res, Init obj # rest)
           \<and> obj = (if isfile w (path_join (getcwd w) ''SRAmetadb.sqlite'')
                    then SRAdb (path_join (getcwd w) ''SRAmetadb.sqlite'') else SRAweb)
           \<and> (\<forall>ev\<in>set rest. is_output ev \<or> ev = Close obj
                  \<or> (\<exists>m a kw. ev = Method obj m a kw))"
proof -
  obtain m i kw where c: "parse_args w ns = convert w m i (db ns) (saveto ns) kw"
    using parse_args_convert_any [OF assms(1)] by blast
  let ?p = "if isfile w (path_join (getcwd w) ''SRAmetadb.sqlite'')
            then path_join (getcwd w) ''SRAmetadb.sqlite'' else ''web''"
  have "check_sradb_file w (db ns) [] = (Inr ?p, [])"
    using assms(2) by (simp add: check_sradb_file_None)
  from convert_check_ok [OF this, of m i "saveto ns" kw]
  obtain res rest where r: "convert w m i (db ns) (saveto ns) kw [] = (res, Init (chosen ?p) # rest)"
    and s: "\<forall>ev\<in>set rest. ev = Method (chosen ?p) m [i] kw \<or> is_output ev
                  \<or> ev = Close (chosen ?p)"
    by auto
  have ch: "chosen ?p = (if isfile w (path_join (getcwd w) ''SRAmetadb.sqlite'')
                    then SRAdb (path_join (getcwd w) ''SRAmetadb.sqlite'') else SRAweb)"
    by (simp add: chosen_def cwd_db_not_web)
  from s have "\<forall>ev\<in>set rest. is_output ev \<or> ev = Close (chosen ?p)
                  \<or> (\<exists>m a kw. ev = Method (chosen ?p) m a kw)"
    by auto
  then show ?thesis using c r ch by auto
qed

text \<open>A working directory without the snapshot, and one that holds it.\<close>

theorem no_db_probes_working_directory_witness:
  "(\<exists>res rest. parse_args w0 (ns0\<lparr>command := ''gsm-to-srr''\<rparr>) [] = (res, Init SRAweb # rest))
   \<and> (\<exists>res rest. parse_args (w0\<lparr>getcwd := ''/data''\<rparr>) (ns0\<lparr>command := ''metadata''\<rparr>) []
         = (res, Init (SRAdb ''/data/SRAmetadb.sqlite'') # rest))"
proof -
  have "path_join ''/home/user'' ''SRAmetadb.sqlite'' = ''/home/user/SRAmetadb.sqlite''"
    and "path_join ''/data'' ''SRAmetadb.sqlite'' = ''/data/SRAmetadb.sqlite''"
    by (simp_all add: path_join_def endswith_def)
  then show ?thesis
    using no_db_probes_working_directory [of "ns0\<lparr>command := ''gsm-to-srr''\<rparr>" w0]
      no_db_probes_working_directory [of "ns0\<lparr>command := ''metadata''\<rparr>" "w0\<lparr>getcwd := ''/data''\<rparr>"]
    by (simp add: conversion_commands_def ns0_def w0_def) blast
qed

text \<open>
  Claim C8. For each of the conversion subcommands and for \<^verbatim>\<open>metadata\<close>, every method
  call made on a metadata source is made on the source that was built, whichever it is,
  and carries the flag \<^verbatim>\<open>detailed\<close> as \<^verbatim>\<open>detailed\<close>, \<^verbatim>\<open>desc\<close> as
  \<^verbatim>\<open>sample_attribute\<close> and \<^verbatim>\<open>expand\<close> as \<^verbatim>\<open>expand_sample_attributes\<close>; for
  a conversion the method is the one named after the subcommand and these three are all
  its keyword arguments. When the check of \<^verbatim>\<open>db\<close> passes and the source is built
  without an exception, the call is made, on the web source and on a local snapshot
  alike.
\<close>

theorem conversion_forwards_flags:
  assumes "command ns \<in> set conversion_commands \<union> {''metadata''}"
  shows "(\<forall>obj m a kw. Method obj m a kw \<in> set (snd (parse_args w ns [])) \<longrightarrow>
            Init obj \<in> set (snd (parse_args w ns []))
          \<and> map_of kw ''detailed'' = Some (PBool (detailed ns))
          \<and> map_of kw ''sample_attribute'' = Some (PBool (desc ns))
          \<and> map_of kw ''expand_sample_attributes'' = Some (PBool (expand ns))
          \<and> (command ns \<noteq> ''metadata'' \<longrightarrow>
                m = map (\<lambda>x. if x = CHR ''-'' then CHR ''_'' else x) (command ns)
              \<and> kw = [(''detailed'', PBool (detailed ns)),
                       (''sample_attribute'', PBool (desc ns)),
                       (''expand_sample_attributes'', PBool (expand ns))]))
       \<and> (\<forall>p. check_sradb_file w (db ns) [] = (Inr p, [])
               \<and> fails w [] (Init (if p = ''web'' then SRAweb else SRAdb p)) = None \<longrightarrow>
             (\<exists>m a kw. Method (if p = ''web'' then SRAweb else SRAdb p) m a kw
                        \<in> set (snd (parse_args w ns []))))"
proof (rule conjI)
  show "\<forall>obj m a kw. Method obj m a kw \<in> set (snd (parse_args w ns [])) \<longrightarrow>
            Init obj \<in> set (snd (parse_args w ns []))
          \<and> map_of kw ''detailed'' = Some (PBool (detailed ns))
          \<and> map_of kw ''sample_attribute'' = Some (PBool (desc ns))
          \<and> map_of kw ''expand_sample_attributes'' = Some (PBool (expand ns))
          \<and> (command ns \<noteq> ''metadata'' \<longrightarrow>
                m = map (\<lambda>x. if x = CHR ''-'' then CHR ''_'' else x) (command ns)
              \<and> kw = [(''detailed'', PBool (detailed ns)),
                       (''sample_attribute'', PBool (desc ns)),
                       (''expand_sample_attributes'', PBool (expand ns))])"
    by (intro allI impI) (rule forwarded_call [OF assms])
next
  show "\<forall>p. check_sradb_file w (db ns) [] = (Inr p, [])
               \<and> fails w [] (Init (if p = ''web'' then SRAweb else SRAdb p)) = None \<longrightarrow>
             (\<exists>m a kw. Method (if p = ''web'' then SRAweb else SRAdb p) m a kw
                        \<in> set (snd (parse_args w ns [])))"
  proof (intro allI impI)
    fix p
    assume "check_sradb_file w (db ns) [] = (Inr p, [])
            \<and> fails w [] (Init (if p = ''web'' then SRAweb else SRAdb p)) = None"
    then have "check_sradb_file w (db ns) [] = (Inr p, [])"
      and "fails w [] (Init (chosen p)) = None" by (simp_all add: chosen_def)
    from call_is_made [OF assms this]
    show "\<exists>m a kw. Method (if p = ''web'' then SRAweb else SRAdb p) m a kw
                        \<in> set (snd (parse_args w ns []))"
      by (simp add: chosen_def)
  qed
qed

text \<open>\<^verbatim>\<open>pysradb gse-to-srp --detailed --expand GSE1\<close> with no snapshot around.\<close>

theorem conversion_forwards_flags_witness:
  "Method SRAweb ''gse_to_srp'' [PList [''GSE1'']]
      [(''detailed'', PBool True), (''sample_attribute'', PBool False),
       (''expand_sample_attributes'', PBool True)]
     \<in> set (snd (parse_args w0 ns_gse_to_srp []))
   \<and> Init SRAweb \<in> set (snd (parse_args w0 ns_gse_to_srp []))"
proof -
  have 1: "command ns_gse_to_srp \<in> set conversion_commands \<union> {''metadata''}"
    by (simp add: conversion_commands_def ns_gse_to_srp_def ns0_def)
  have "path_join ''/home/user'' ''SRAmetadb.sqlite'' = ''/home/user/SRAmetadb.sqlite''"
    by (simp add: path_join_def endswith_def)
  then have 2: "check_sradb_file w0 (db ns_gse_to_srp) [] = (Inr ''web'', [])"
    by (simp add: ns_gse_to_srp_def ns0_def check_sradb_file_None w0_simps)
  have 3: "fails w0 [] (Init (if ''web'' = ''web'' then SRAweb else SRAdb ''web'')) = None"
    by (simp add: w0_simps)
  from conversion_forwards_flags [OF 1, of w0] 2 3
  obtain m a kw where 4: "Method SRAweb m a kw \<in> set (snd (parse_args w0 ns_gse_to_srp []))"
    by auto
  from conversion_forwards_flags [OF 1, of w0] 4
  have "Init SRAweb \<in> set (snd (parse_args w0 ns_gse_to_srp []))"
    and "m = ''gse_to_srp''"
    and "kw = [(''detailed'', PBool True), (''sample_attribute'', PBool False),
       (''expand_sample_attributes'', PBool True)]"
    by (auto simp add: ns_gse_to_srp_def ns0_def)
  moreover have "a = [PList [''GSE1'']]"
    using 4 convert_methods [of SRAweb m a kw w0 "underscored (command ns_gse_to_srp)"
         "ids_attr ns_gse_to_srp"]
      parse_args_conversion [of ns_gse_to_srp w0] 1
    by (simp add: conversion_commands_def) (simp add: ns_gse_to_srp_def ns0_def ids_attr_def)
  ultimately show ?thesis using 4 by simp
qed



subsection \<open>Downloading\<close>

lemma download_each_trace:
  "\<exists>new. snd (download_each w obj od x skip xs tr) = tr @ new
     \<and> (\<forall>ev\<in>set new.
           (\<exists>s. ev = Method obj ''sra_metadata'' [PStr s] [(''detailed'', PBool True)])
         \<or> (\<exists>df. ev = Method obj ''download'' []
               [(''df'', PTable df), (''out_dir'', PStr od), (''filter_by_srx'', x),
                (''skip_confirmation'', PBool skip)]))"
proof (induction xs arbitrary: tr)
  case Nil
  show ?case by (simp add: ret_def)
next
  case (Cons s xs)
  let ?e1 = "Method obj ''sra_metadata'' [PStr s] [(''detailed'', PBool True)]"
  show ?case
  proof (cases "answer w tr ?e1")
    case (Inl e)
    then show ?thesis by (simp add: bnd_def ask_def)
  next
    case (Inr df)
    let ?e2 = "Method obj ''download'' []
               [(''df'', PTable df), (''out_dir'', PStr od), (''filter_by_srx'', x),
                (''skip_confirmation'', PBool skip)]"
    show ?thesis
    proof (cases "fails w (tr @ [?e1]) ?e2")
      case (Some e)
      then show ?thesis using Inr by (simp add: bnd_def ask_def act_def)
    next
      case None
      obtain new where n: "snd (download_each w obj od x skip xs (tr @ [?e1, ?e2])) = (tr @ [?e1, ?e2]) @ new"
        and p: "\<forall>ev\<in>set new.
           (\<exists>s. ev = Method obj ''sra_metadata'' [PStr s] [(''detailed'', PBool True)])
         \<or> (\<exists>df. ev = Method obj ''download'' []
               [(''df'', PTable df), (''out_dir'', PStr od), (''filter_by_srx'', x),
                (''skip_confirmation'', PBool skip)])"
        using Cons.IH [of "tr @ [?e1, ?e2]"] by blast
      have "snd (download_each w obj od x skip (s # xs) tr) = tr @ (?e1 # ?e2 # new)"
        using Inr None n by (simp add: bnd_def ask_def act_def)
      moreover have "\<forall>ev\<in>set (?e1 # ?e2 # new).
           (\<exists>s. ev = Method obj ''sra_metadata'' [PStr s] [(''detailed'', PBool True)])
         \<or> (\<exists>df. ev = Method obj ''download'' []
               [(''df'', PTable df), (''out_dir'', PStr od), (''filter_by_srx'', x),
                (''skip_confirmation'', PBool skip)])"
        using p by auto
      ultimately show ?thesis by blast
    qed
  qed
qed

lemma download_check_fails:
  "check_sradb_file w d tr = (Inl e, tr') \<Longrightarrow>
     download w od d x sp skip c uw tr = (Inl e, tr')"
  by (simp add: download_def bnd_def Let_def)

lemma download_stdin:
  assumes "check_sradb_file w d tr = (Inr p, tr')" and "sp = None \<or> sp = Some []"
  shows "\<exists>res new. download w od d x sp skip c uw tr = (res, tr @ Init (chosen p) # new)
           \<and> (\<forall>ev\<in>set new. ev = Close (chosen p) \<or> (\<exists>t. ev = Read_csv t [tab])
                 \<or> (\<exists>df. ev = Method (chosen p) ''download'' []
                        (kw_stdin df (out_dir_of w od) x (if uw then ''ftp'' else ''fasp'') c)))"
proof -
  have tr': "tr' = tr" using assms(1) check_sradb_file_trace [of w d tr] by simp
  let ?t = "stdin_text 0 (stdin w) []"
  let ?tr1 = "tr @ [Init (chosen p)]"
  show ?thesis
  proof (cases "fails w tr (Init (chosen p))")
    case (Some e)
    then show ?thesis using assms tr'
      by (simp add: download_def bnd_def get_sra_object_run Let_def)
  next
    case None
    show ?thesis
    proof (cases "answer w ?tr1 (Read_csv ?t [tab])")
      case (Inl e)
      then show ?thesis using assms tr' None
        by (auto simp add: download_def bnd_def get_sra_object_run ask_def Let_def)
    next
      case (Inr df)
      let ?ev = "Method (chosen p) ''download'' []
                        (kw_stdin df (out_dir_of w od) x (if uw then ''ftp'' else ''fasp'') c)"
      show ?thesis
      proof (cases "fails w (?tr1 @ [Read_csv ?t [tab]]) ?ev")
        case (Some e)
        then show ?thesis using assms tr' None Inr
          by (auto simp add: download_def bnd_def get_sra_object_run ask_def act_def emit_def Let_def
                kw_stdin_def out_dir_of_def)
      next
        case N2: None
        then show ?thesis using assms tr' None Inr
          by (auto simp add: download_def bnd_def get_sra_object_run ask_def act_def emit_def Let_def
                kw_stdin_def out_dir_of_def)
      qed
    qed
  qed
qed

lemma download_srp:
  assumes "check_sradb_file w d tr = (Inr p, tr')" and "\<not> (sp = None \<or> sp = Some [])"
  shows "\<exists>res new. download w od d x sp skip c uw tr = (res, tr @ Init (chosen p) # new)
           \<and> (\<forall>ev\<in>set new. ev = Close (chosen p)
                 \<or> (\<exists>s. ev = Method (chosen p) ''sra_metadata'' [PStr s] [(''detailed'', PBool True)])
                 \<or> (\<exists>df. ev = Method (chosen p) ''download'' []
                        (kw_srp df (out_dir_of w od) x skip)))"
proof -
  have tr': "tr' = tr" using assms(1) check_sradb_file_trace [of w d tr] by simp
  let ?tr1 = "tr @ [Init (chosen p)]"
  show ?thesis
  proof (cases "fails w tr (Init (chosen p))")
    case (Some e)
    then show ?thesis using assms tr'
      by (simp add: download_def bnd_def get_sra_object_run Let_def)
  next
    case None
    obtain new where n: "snd (download_each w (chosen p) (out_dir_of w od) x skip (the sp) ?tr1) = ?tr1 @ new"
      and q: "\<forall>ev\<in>set new.
           (\<exists>s. ev = Method (chosen p) ''sra_metadata'' [PStr s] [(''detailed'', PBool True)])
         \<or> (\<exists>df. ev = Method (chosen p) ''download'' []
               [(''df'', PTable df), (''out_dir'', PStr (out_dir_of w od)), (''filter_by_srx'', x),
                (''skip_confirmation'', PBool skip)])"
      using download_each_trace by blast
    obtain r where r: "download_each w (chosen p) (out_dir_of w od) x skip (the sp) ?tr1 = (r, ?tr1 @ new)"
      using n by (cases "download_each w (chosen p) (out_dir_of w od) x skip (the sp) ?tr1") simp
    show ?thesis
    proof (cases r)
      case (Inl e)
      then show ?thesis using assms tr' None r q
        by (auto simp add: download_def bnd_def get_sra_object_run Let_def kw_srp_def out_dir_of_def)
    next
      case (Inr u)
      then show ?thesis using assms tr' None r q
        by (auto simp add: download_def bnd_def get_sra_object_run emit_def Let_def kw_srp_def out_dir_of_def)
    qed
  qed
qed

lemma download_method_kw:
  assumes "Method obj m a kw \<in> set (snd (download w od d x sp skip c uw []))"
  shows "(if sp = None \<or> sp = Some []
          then m = ''download''
             \<and> (\<exists>df. kw = kw_stdin df (out_dir_of w od) x (if uw then ''ftp'' else ''fasp'') c)
          else (m = ''sra_metadata'' \<and> kw = [(''detailed'', PBool True)])
             \<or> (m = ''download'' \<and> (\<exists>df. kw = kw_srp df (out_dir_of w od) x skip)))"
proof (cases "check_sradb_file w d []")
  case (Pair r tr')
  have tr': "tr' = []" using Pair check_sradb_file_trace [of w d "[]"] by simp
  show ?thesis
  proof (cases r)
    case (Inl e)
    then have "download w od d x sp skip c uw [] = (Inl e, [])"
      using Pair tr' by (simp add: download_check_fails)
    then show ?thesis using assms by simp
  next
    case (Inr p)
    then have c: "check_sradb_file w d [] = (Inr p, tr')" using Pair by simp
    show ?thesis
    proof (cases "sp = None \<or> sp = Some []")
      case True
      from download_stdin [OF c True, of od x skip c uw]
      obtain res new where r: "download w od d x sp skip c uw [] = (res, Init (chosen p) # new)"
        and q: "\<forall>ev\<in>set new. ev = Close (chosen p) \<or> (\<exists>t. ev = Read_csv t [tab])
                 \<or> (\<exists>df. ev = Method (chosen p) ''download'' []
                        (kw_stdin df (out_dir_of w od) x (if uw then ''ftp'' else ''fasp'') c))"
        by auto
      have "Method obj m a kw \<in> set new" using assms r by simp
      with q have "\<exists>df. Method obj m a kw = Method (chosen p) ''download'' []
                        (kw_stdin df (out_dir_of w od) x (if uw then ''ftp'' else ''fasp'') c)"
        by fastforce
      then show ?thesis using True by auto
    next
      case False
      from download_srp [OF c False, of od x skip c uw]
      obtain res new where r: "download w od d x sp skip c uw [] = (res, Init (chosen p) # new)"
        and q: "\<forall>ev\<in>set new. ev = Close (chosen p)
                 \<or> (\<exists>s. ev = Method (chosen p) ''sra_metadata'' [PStr s] [(''detailed'', PBool True)])
                 \<or> (\<exists>df. ev = Method (chosen p) ''download'' []
                        (kw_srp df (out_dir_of w od) x skip))"
        by auto
      have "Method obj m a kw \<in> set new" using assms r by simp
      with q have "(\<exists>s. Method obj m a kw = Method (chosen p) ''sra_metadata'' [PStr s] [(''detailed'', PBool True)])
                 \<or> (\<exists>df. Method obj m a kw = Method (chosen p) ''download'' []
                        (kw_srp df (out_dir_of w od) x skip))"
        by fastforce
      then show ?thesis using False by auto
    qed
  qed
qed

lemma parse_args_download:
  "command ns = ''download'' \<Longrightarrow>
     parse_args w ns =
       download w (out_dir ns) (db ns) (srx ns) (srp ns) (skip_confirmation ns) (col ns) True"
  by (simp add: parse_args_def)

lemma stdin_text_w0:
  "stdin_text 0 (stdin w0) [] =
     ''run_accession'' @ [tab] @ ''study_accession'' @ [newline]
     @ ''SRR000001'' @ [tab] @ ''SRP000001'' @ [newline]"
  by (simp add: w0_def normalise_line_def strip_def isspace_def tab_def newline_def)

lemma run_download_stdin:
  "parse_args w0 ns_download [] =
     (Inr (),
      [Init SRAweb,
       Read_csv (''run_accession'' @ [tab] @ ''study_accession'' @ [newline]
                 @ ''SRR000001'' @ [tab] @ ''SRP000001'' @ [newline]) [tab],
       Method SRAweb ''download'' []
         [(''df'', PTable df0), (''out_dir'', PStr ''/home/user/pysradb_downloads''),
          (''filter_by_srx'', PNone), (''skip_confirmation'', PBool True),
          (''protocol'', PStr ''ftp''), (''url_col'', PStr ''sra_url'')],
       Close SRAweb])"
proof -
  have "command ns_download = ''download''" and "db ns_download = None"
    and "srp ns_download = None" and "out_dir ns_download = None"
    and "srx ns_download = PNone" and "col ns_download = ''sra_url''"
    by (simp_all add: ns_download_def ns0_def)
  then show ?thesis
    by (simp add: parse_args_download download_def bnd_def check_w0 get_sra_object_run chosen_def
          w0_simps cwd_join ask_def act_def emit_def stdin_text_w0 Let_def)
qed

lemma run_download_srp:
  "parse_args w0 ns_download_srp [] =
     (Inr (),
      [Init SRAweb,
       Method SRAweb ''sra_metadata'' [PStr ''SRP000001''] [(''detailed'', PBool True)],
       Method SRAweb ''download'' []
         [(''df'', PTable df0), (''out_dir'', PStr ''/home/user/pysradb_downloads''),
          (''filter_by_srx'', PNone), (''skip_confirmation'', PBool False)],
       Close SRAweb])"
proof -
  have "command ns_download_srp = ''download''" and "db ns_download_srp = None"
    and "srp ns_download_srp = Some [''SRP000001'']" and "out_dir ns_download_srp = None"
    and "srx ns_download_srp = PNone" and "col ns_download_srp = ''sra_url''"
    and "skip_confirmation ns_download_srp = False"
    by (simp_all add: ns_download_srp_def ns0_def)
  then show ?thesis
    by (simp add: parse_args_download download_def bnd_def check_w0 get_sra_object_run chosen_def
          w0_simps cwd_join ask_def act_def emit_def ret_def Let_def)
qed

text \<open>
  Claim C1, as the code has it. For the \<^verbatim>\<open>download\<close> subcommand, every call of
  \<^verbatim>\<open>download\<close> on the metadata source carries a \<^verbatim>\<open>skip_confirmation\<close>: on the
  \<^verbatim>\<open>--srp\<close> branch it is the user's flag; on the branch that reads a table from
  standard input it is \<^verbatim>\<open>True\<close> whatever the flag, so that branch never asks.
\<close>

theorem download_skip_confirmation:
  assumes "command ns = ''download''"
    and "Method obj ''download'' a kw \<in> set (snd (parse_args w ns []))"
  shows "map_of kw ''skip_confirmation'' =
           Some (PBool (if srp ns = None \<or> srp ns = Some [] then True
                        else skip_confirmation ns))"
  using download_method_kw [of obj "''download''" a kw w "out_dir ns" "db ns" "srx ns" "srp ns"
      "skip_confirmation ns" "col ns" True] assms
  by (auto simp add: parse_args_download kw_stdin_def kw_srp_def split: if_splits)

text \<open>Both branches, with the flag \<^verbatim>\<open>--skip-confirmation\<close> not given.\<close>

theorem download_skip_confirmation_witness:
  "Method SRAweb ''download'' []
         [(''df'', PTable df0), (''out_dir'', PStr ''/home/user/pysradb_downloads''),
          (''filter_by_srx'', PNone), (''skip_confirmation'', PBool False)]
     \<in> set (snd (parse_args w0 ns_download_srp []))
   \<and> skip_confirmation ns_download_srp = False
   \<and> Method SRAweb ''download'' []
         [(''df'', PTable df0), (''out_dir'', PStr ''/home/user/pysradb_downloads''),
          (''filter_by_srx'', PNone), (''skip_confirmation'', PBool True),
          (''protocol'', PStr ''ftp''), (''url_col'', PStr ''sra_url'')]
     \<in> set (snd (parse_args w0 ns_download []))"
proof -
  have 1: "command ns_download_srp = ''download''" and 2: "command ns_download = ''download''"
    by (simp_all add: ns_download_srp_def ns_download_def ns0_def)
  have 3: "Method SRAweb ''download'' []
         [(''df'', PTable df0), (''out_dir'', PStr ''/home/user/pysradb_downloads''),
          (''filter_by_srx'', PNone), (''skip_confirmation'', PBool False)]
     \<in> set (snd (parse_args w0 ns_download_srp []))"
    by (simp add: run_download_srp)
  have 4: "Method SRAweb ''download'' []
         [(''df'', PTable df0), (''out_dir'', PStr ''/home/user/pysradb_downloads''),
          (''filter_by_srx'', PNone), (''skip_confirmation'', PBool True),
          (''protocol'', PStr ''ftp''), (''url_col'', PStr ''sra_url'')]
     \<in> set (snd (parse_args w0 ns_download []))"
    by (simp add: run_download_stdin)
  from download_skip_confirmation [OF 1 3] download_skip_confirmation [OF 2 4] 3 4 show ?thesis
    by (simp add: ns_download_srp_def ns_download_def ns0_def split: if_splits)
qed

text \<open>
  Against C1 as stated ("the value forwarded equals the user's flag, on both branches"):
  \<^verbatim>\<open>pysradb download\<close> with a table on standard input and without
  \<^verbatim>\<open>--skip-confirmation\<close>. The flag is \<^verbatim>\<open>False\<close>, and the third event of the run
  is the call of \<^verbatim>\<open>download\<close> with \<^verbatim>\<open>skip_confirmation=True\<close>.
\<close>

theorem download_stdin_forces_skip_counterexample:
  "skip_confirmation ns_download = False
   \<and> snd (parse_args w0 ns_download []) ! 2 =
       Method SRAweb ''download'' []
         [(''df'', PTable df0), (''out_dir'', PStr ''/home/user/pysradb_downloads''),
          (''filter_by_srx'', PNone), (''skip_confirmation'', PBool True),
          (''protocol'', PStr ''ftp''), (''url_col'', PStr ''sra_url'')]"
  by (simp add: run_download_stdin) (simp add: ns_download_def ns0_def)

text \<open>
  Claim C10, as the code has it. For the \<^verbatim>\<open>download\<close> subcommand the value of
  \<^verbatim>\<open>args.use_wget\<close> changes nothing: the dispatch calls \<^verbatim>\<open>download\<close> with its
  default \<^verbatim>\<open>use_wget=True\<close>. No call on the metadata source carries the protocol
  \<^verbatim>\<open>"fasp"\<close>, and on the branch that reads a table from standard input the only
  method called is \<^verbatim>\<open>download\<close>, with the protocol \<^verbatim>\<open>"ftp"\<close>.
\<close>

theorem download_ignores_use_wget:
  assumes "command ns = ''download''"
  shows "parse_args w (ns\<lparr>use_wget := b\<rparr>) = parse_args w ns
       \<and> parse_args w ns =
           download w (out_dir ns) (db ns) (srx ns) (srp ns) (skip_confirmation ns) (col ns) True
       \<and> (\<forall>obj m a kw. Method obj m a kw \<in> set (snd (parse_args w ns [])) \<longrightarrow>
              map_of kw ''protocol'' \<noteq> Some (PStr ''fasp''))
       \<and> ((srp ns = None \<or> srp ns = Some []) \<longrightarrow>
            (\<forall>obj m a kw. Method obj m a kw \<in> set (snd (parse_args w ns [])) \<longrightarrow>
               m = ''download'' \<and> map_of kw ''protocol'' = Some (PStr ''ftp'')))"
proof (intro conjI)
  show "parse_args w (ns\<lparr>use_wget := b\<rparr>) = parse_args w ns"
    using assms by (simp add: parse_args_def)
  show "parse_args w ns =
           download w (out_dir ns) (db ns) (srx ns) (srp ns) (skip_confirmation ns) (col ns) True"
    using assms by (rule parse_args_download)
  show "\<forall>obj m a kw. Method obj m a kw \<in> set (snd (parse_args w ns [])) \<longrightarrow>
              map_of kw ''protocol'' \<noteq> Some (PStr ''fasp'')"
  proof (intro allI impI)
    fix obj m a kw
    assume "Method obj m a kw \<in> set (snd (parse_args w ns []))"
    then show "map_of kw ''protocol'' \<noteq> Some (PStr ''fasp'')"
      using download_method_kw [of obj m a kw w "out_dir ns" "db ns" "srx ns" "srp ns"
        "skip_confirmation ns" "col ns" True] assms
      by (auto simp add: parse_args_download kw_stdin_def kw_srp_def split: if_splits)
  qed
  show "(srp ns = None \<or> srp ns = Some []) \<longrightarrow>
            (\<forall>obj m a kw. Method obj m a kw \<in> set (snd (parse_args w ns [])) \<longrightarrow>
               m = ''download'' \<and> map_of kw ''protocol'' = Some (PStr ''ftp''))"
  proof (intro allI impI)
    fix obj m a kw
    assume "srp ns = None \<or> srp ns = Some []"
      and "Method obj m a kw \<in> set (snd (parse_args w ns []))"
    then show "m = ''download'' \<and> map_of kw ''protocol'' = Some (PStr ''ftp'')"
      using download_method_kw [of obj m a kw w "out_dir ns" "db ns" "srx ns" "srp ns"
        "skip_confirmation ns" "col ns" True] assms
      by (auto simp add: parse_args_download kw_stdin_def)
  qed
qed

text \<open>\<^verbatim>\<open>pysradb download\<close> on a piped table, with and without \<^verbatim>\<open>--use-wget\<close>.\<close>

theorem download_ignores_use_wget_witness:
  "parse_args w0 (ns_download\<lparr>use_wget := True\<rparr>) = parse_args w0 ns_download
   \<and> Method SRAweb ''download'' []
         [(''df'', PTable df0), (''out_dir'', PStr ''/home/user/pysradb_downloads''),
          (''filter_by_srx'', PNone), (''skip_confirmation'', PBool True),
          (''protocol'', PStr ''ftp''), (''url_col'', PStr ''sra_url'')]
     \<in> set (snd (parse_args w0 ns_download []))"
proof -
  have 1: "command ns_download = ''download''"
    by (simp add: ns_download_def ns0_def)
  from download_ignores_use_wget [OF 1, of w0 True]
  have "parse_args w0 (ns_download\<lparr>use_wget := True\<rparr>) = parse_args w0 ns_download"
    by (rule conjunct1)
  then show ?thesis
    by (simp add: run_download_stdin)
qed

text \<open>
  Against C10 as stated ("the transfer protocol passed to the metadata source is always
  ftp"): \<^verbatim>\<open>pysradb download --use-wget --srp SRP000001\<close>. The third event of the run
  is the call of \<^verbatim>\<open>download\<close>, and it has no \<^verbatim>\<open>protocol\<close> among its keyword
  arguments: the protocol is left to the metadata source.
\<close>

theorem download_srp_without_protocol_counterexample:
  "snd (parse_args w0 ns_download_srp []) ! 2 =
     Method SRAweb ''download'' []
         [(''df'', PTable df0), (''out_dir'', PStr ''/home/user/pysradb_downloads''),
          (''filter_by_srx'', PNone), (''skip_confirmation'', PBool False)]
   \<and> map_of [(''df'', PTable df0), (''out_dir'', PStr ''/home/user/pysradb_downloads''),
          (''filter_by_srx'', PNone), (''skip_confirmation'', PBool False)] ''protocol'' = None"
  by (simp add: run_download_srp)

subsection \<open>Searching\<close>


lemma subscripts_ok:
  "map f ks = map Some vs \<Longrightarrow> subscripts f ks tr = (Inr vs, tr)"
  by (induction ks arbitrary: vs) (auto simp add: prog_defs)

lemma subscripts_cong:
  "(\<forall>k\<in>set ks. g k = f k) \<Longrightarrow> subscripts g ks = subscripts f ks"
  by (induction ks) (auto split: option.splits)



lemma search_try_eq:
  "search_try w d v r f =
     bnd (subscripts f (keys_of d)) (\<lambda>args.
     bnd (act w (Search_init (backend d (PInt v # PInt r # args)))) (\<lambda>_.
     bnd (act w (Search_search (backend d (PInt v # PInt r # args)))) (\<lambda>_.
     ret (backend d (PInt v # PInt r # args)))))"
  by (simp add: search_try_def keys_of_def backend_def common_fields_def geo_fields_def Let_def)


lemma search_try_run:
  assumes "subscripts f (keys_of d) tr = (Inr args, tr)"
  shows "search_try w d v r f tr =
     (let inst = backend d (PInt v # PInt r # args) in
      case fails w tr (Search_init inst) of
        Some e \<Rightarrow> (Inl e, tr @ [Search_init inst])
      | None \<Rightarrow>
         (case fails w (tr @ [Search_init inst]) (Search_search inst) of
            Some e \<Rightarrow> (Inl e, tr @ [Search_init inst, Search_search inst])
          | None \<Rightarrow> (Inr inst, tr @ [Search_init inst, Search_search inst])))"
  using assms by (simp add: search_try_eq prog_defs Let_def split: option.splits)


lemma search_run:
  assumes "subscripts f (keys_of d) [] = (Inr args, [])"
  shows "search w s d v r f [] =
     (let inst = backend d (PInt v # PInt r # args) in
      case fails w [] (Search_init inst) of
        Some e \<Rightarrow>
          (if caught e then (Inr (), [Search_init inst, Print (message e)])
           else (Inl e, [Search_init inst]))
      | None \<Rightarrow>
         (case fails w [Search_init inst] (Search_search inst) of
            Some e \<Rightarrow>
              (if caught e then (Inr (), [Search_init inst, Search_search inst, Print (message e)])
               else (Inl e, [Search_init inst, Search_search inst]))
          | None \<Rightarrow>
              (case answer w [Search_init inst, Search_search inst] (Search_get_df inst) of
                 Inl e \<Rightarrow> (Inl e, [Search_init inst, Search_search inst, Search_get_df inst])
               | Inr df \<Rightarrow>
                   print_save_df w df s
                     [Search_init inst, Search_search inst, Search_get_df inst])))"
  using search_try_run [OF assms, of w v r]
  by (simp add: search_def Let_def prog_defs split: option.splits sum.splits)

lemma search_shape:
  assumes "subscripts f (keys_of d) [] = (Inr args, [])"
  shows "\<exists>res rest. search w s d v r f [] =
            (res, Search_init (backend d (PInt v # PInt r # args)) # rest)
          \<and> (\<forall>ev\<in>set rest. \<forall>i. ev \<noteq> Search_init i)"
proof -
  let ?inst = "backend d (PInt v # PInt r # args)"
  have out: "\<exists>out. print_save_df w df s [Search_init ?inst, Search_search ?inst, Search_get_df ?inst]
      = (Inr (), [Search_init ?inst, Search_search ?inst, Search_get_df ?inst] @ out)
        \<and> (\<forall>ev\<in>set out. is_output ev)" for df
    by (rule print_save_df_output)
  show ?thesis
  proof (cases "fails w [] (Search_init ?inst)")
    case (Some e)
    then show ?thesis by (simp add: search_run [OF assms] Let_def)
  next
    case None
    show ?thesis
    proof (cases "fails w [Search_init ?inst] (Search_search ?inst)")
      case (Some e)
      then show ?thesis using None by (simp add: search_run [OF assms] Let_def)
    next
      case N2: None
      show ?thesis
      proof (cases "answer w [Search_init ?inst, Search_search ?inst] (Search_get_df ?inst)")
        case (Inl e)
        then show ?thesis using None N2 by (simp add: search_run [OF assms] Let_def)
      next
        case (Inr df)
        obtain out where o: "print_save_df w df s [Search_init ?inst, Search_search ?inst, Search_get_df ?inst]
            = (Inr (), [Search_init ?inst, Search_search ?inst, Search_get_df ?inst] @ out)"
          and p: "\<forall>ev\<in>set out. is_output ev"
          using out by blast
        have "\<forall>ev\<in>set out. \<forall>i. ev \<noteq> Search_init i"
          using p by auto
        then show ?thesis using None N2 Inr o by (simp add: search_run [OF assms] Let_def)
      qed
    qed
  qed
qed

lemma parse_args_search:
  "command ns = ''search'' \<Longrightarrow>
     parse_args w ns = search w (saveto ns) (db ns) (verbosity ns) (max_arg ns) (fields_of ns)"
  by (simp add: parse_args_def fields_of_def Let_def)

lemma fields_of_common:
  "map (fields_of ns) common_fields =
     map Some [query ns, accession ns, organism ns, layout ns, mbases ns, publication_date ns,
               platform ns, selection ns, source ns, strategy ns, title ns]"
  by (simp add: fields_of_def vars_def common_fields_def)

lemma fields_of_geo:
  "map (fields_of ns) geo_fields =
     map Some [geo_query ns, geo_dataset_type ns, geo_entry_type ns]"
  by (simp add: fields_of_def vars_def geo_fields_def)


lemma ns_search_geo_simps:
  "command ns_search_geo = ''search''" "saveto ns_search_geo = None"
  "db ns_search_geo = Some ''geo''"
  "verbosity ns_search_geo = 2" "max_arg ns_search_geo = 20"
  "map (fields_of ns_search_geo) (common_fields @ geo_fields) =
     map Some (PList [''ribosome'', ''profiling''] # replicate 10 PNone
               @ [PList [''human''], PNone, PNone])"
  "map (fields_of ns_search_geo) common_fields =
     map Some (PList [''ribosome'', ''profiling''] # replicate 10 PNone)"
  by (simp_all add: fields_of_common fields_of_geo)
     (simp_all add: ns_search_geo_def ns0_def eval_nat_numeral)



text \<open>
  Claim C7. \<^verbatim>\<open>search\<close> builds exactly one backend, and which one depends on
  \<^verbatim>\<open>db\<close> alone: \<^verbatim>\<open>"ena"\<close> gives \<^verbatim>\<open>EnaSearch\<close>, \<^verbatim>\<open>"geo"\<close> gives
  \<^verbatim>\<open>GeoSearch\<close>, anything else \<^verbatim>\<open>SraSearch\<close>. Its arguments are the verbosity, the
  maximum and the values of the eleven common fields, followed by the values of the three
  GEO fields for \<^verbatim>\<open>GeoSearch\<close> only. For the other two backends the run does not depend
  on the GEO fields at all: they may even be absent.
\<close>

theorem search_selects_backend:
  assumes "map f (if d = Some ''geo'' then common_fields @ geo_fields else common_fields)
             = map Some vs"
  shows "(\<exists>res rest. search w s d v r f [] =
            (res, Search_init ((if d = Some ''ena'' then EnaSearch
                                else if d = Some ''geo'' then GeoSearch
                                else SraSearch) (PInt v # PInt r # vs)) # rest)
          \<and> (\<forall>ev\<in>set rest. \<forall>i. ev \<noteq> Search_init i))
       \<and> (d \<noteq> Some ''geo'' \<longrightarrow>
            (\<forall>g. (\<forall>k. k \<notin> set geo_fields \<longrightarrow> g k = f k) \<longrightarrow>
                 search w s d v r g = search w s d v r f))"
proof (rule conjI)
  have "subscripts f (keys_of d) [] = (Inr vs, [])"
    using assms by (simp add: keys_of_def subscripts_ok)
  from search_shape [OF this, of w s v r]
  show "\<exists>res rest. search w s d v r f [] =
            (res, Search_init ((if d = Some ''ena'' then EnaSearch
                                else if d = Some ''geo'' then GeoSearch
                                else SraSearch) (PInt v # PInt r # vs)) # rest)
          \<and> (\<forall>ev\<in>set rest. \<forall>i. ev \<noteq> Search_init i)"
    by (simp add: backend_def)
next
  show "d \<noteq> Some ''geo'' \<longrightarrow>
            (\<forall>g. (\<forall>k. k \<notin> set geo_fields \<longrightarrow> g k = f k) \<longrightarrow>
                 search w s d v r g = search w s d v r f)"
  proof (intro impI allI)
    fix g
    assume d: "d \<noteq> Some ''geo''" and g: "\<forall>k. k \<notin> set geo_fields \<longrightarrow> g k = f k"
    have "\<forall>k\<in>set common_fields. k \<notin> set geo_fields"
      by (simp add: common_fields_def geo_fields_def)
    then have "\<forall>k\<in>set (keys_of d). g k = f k"
      using d g by (simp add: keys_of_def)
    then have "subscripts g (keys_of d) = subscripts f (keys_of d)"
      by (rule subscripts_cong)
    then have "search_try w d v r g = search_try w d v r f"
      by (simp add: search_try_eq)
    then show "search w s d v r g = search w s d v r f"
      by (simp add: search_def)
  qed
qed

text \<open>A search of GEO, and the same fields without \<^verbatim>\<open>geo_query\<close> given to ENA.\<close>

theorem search_selects_backend_witness:
  "(\<exists>res rest. parse_args w0 ns_search_geo [] =
      (res, Search_init (GeoSearch (PInt 2 # PInt 20 # PList [''ribosome'', ''profiling'']
               # replicate 10 PNone @ [PList [''human''], PNone, PNone])) # rest))
   \<and> search w0 None (Some ''ena'') 2 20 ((fields_of ns_search_geo)(''geo_query'' := None))
       = search w0 None (Some ''ena'') 2 20 (fields_of ns_search_geo)"
proof -
  let ?vs = "PList [''ribosome'', ''profiling''] # replicate 10 PNone
               @ [PList [''human''], PNone, PNone]"
  have 1: "map (fields_of ns_search_geo)
             (if Some ''geo'' = Some ''geo'' then common_fields @ geo_fields else common_fields)
           = map Some ?vs"
    using ns_search_geo_simps(6) by simp
  have "\<exists>res rest. search w0 None (Some ''geo'') 2 20 (fields_of ns_search_geo) [] =
      (res, Search_init (GeoSearch (PInt 2 # PInt 20 # ?vs)) # rest)"
    using search_selects_backend [OF 1, of w0 None 2 20] by auto
  then have a: "\<exists>res rest. parse_args w0 ns_search_geo [] =
      (res, Search_init (GeoSearch (PInt 2 # PInt 20 # ?vs)) # rest)"
    by (simp add: parse_args_search ns_search_geo_simps)
  let ?f = "fields_of ns_search_geo"
  have 2: "map ?f (if Some ''ena'' = Some ''geo'' then common_fields @ geo_fields
                   else common_fields)
           = map Some (PList [''ribosome'', ''profiling''] # replicate 10 PNone)"
    using ns_search_geo_simps(7) by simp
  have 3: "k \<notin> set geo_fields \<Longrightarrow> (?f(''geo_query'' := None)) k = ?f k" for k
    by (auto simp add: geo_fields_def)
  have 4: "Some ''ena'' \<noteq> Some ''geo''" by simp
  have b: "search w0 None (Some ''ena'') 2 20 (?f(''geo_query'' := None))
       = search w0 None (Some ''ena'') 2 20 ?f"
    by (rule search_selects_backend [OF 2, of w0 None 2 20, THEN conjunct2, rule_format, OF 4 3])
  show ?thesis using a b by simp
qed

end
